theory Spec2Isabelle
  imports Complex_Main
begin

section \<open>Numbers, errors and the input stream\<close>

text \<open>
  Go's \<open>float64\<close> is modelled by \<open>real\<close>: the kernels are read as exact real arithmetic,
  without rounding, infinities or NaN. Go's \<open>int\<close> is modelled by \<open>int\<close>; the only place
  where its 64-bit range matters is \<open>strconv.Atoi\<close>, which reports a range error.
  \<open>[3]float64\<close> is a triple, and a loop \<open>for k := 0; k < 3; k++\<close> is written out per
  component.
\<close>

type_synonym vec3 = "real \<times> real \<times> real"

text \<open>
  Every error value the packages build, one constructor per site. \<open>Wrap\<close> is
  \<open>fmt.Errorf("...: %w", err)\<close>. A run-time panic of the Go program is an error value
  of its own.
\<close>

datatype error =
    AtoiError
  | BoxSizeError
  | NotEnoughColumns nat
  | ColumnsNotFound
  | ColumnsDontMatch nat nat
  | ColumnsDontMatchId nat nat nat
  | MassMissing string
  | Wrap string error
  | WrapStep string int error
  | PanicSliceBounds
  | PanicDivideByZero
  | PanicIndexOutOfRange
  | PanicMakeSlice

text \<open>
  A \<open>*bufio.Reader\<close> is only ever read through \<open>ReadSlice('\n')\<close> (and one
  \<open>ReadByte\<close>/\<open>UnreadByte\<close> pair that peeks for the end of the stream). It is modelled by
  the list of byte slices that its successive \<open>ReadSlice\<close> calls return: a line with its
  terminator, or the unterminated tail of the stream. At the end of the stream
  \<open>ReadSlice\<close> returns the empty slice and \<open>io.EOF\<close>; every caller discards that error.
\<close>

type_synonym reader = "string list"

definition ReadSlice :: "reader \<Rightarrow> string \<times> reader" where
  "ReadSlice r = (case r of [] \<Rightarrow> ([], []) | b # r' \<Rightarrow> (b, r'))"

text \<open>\<open>for i := 0; i < n; i++ { r.ReadSlice('\n') }\<close>: nothing happens for \<open>n \<le> 0\<close>.\<close>

definition skipLines :: "int \<Rightarrow> reader \<Rightarrow> reader" where
  "skipLines n r = drop (nat n) r"

definition nl :: char where
  "nl = CHR 0x0A"

definition line :: "string \<Rightarrow> string" where
  "line s = s @ [nl]"

text \<open>
  \<open>strings.Fields\<close> and \<open>strings.TrimSpace\<close> on ASCII input: the white space is the six
  ASCII characters of Go's \<open>asciiSpace\<close> table.
\<close>

definition isSpace :: "char \<Rightarrow> bool" where
  "isSpace c = (c \<in> set [CHR 0x09, CHR 0x0A, CHR 0x0B, CHR 0x0C, CHR 0x0D, CHR 0x20])"

fun fieldsFrom :: "string \<Rightarrow> string \<Rightarrow> string list" where
  "fieldsFrom cur [] = (if cur = [] then [] else [cur])"
| "fieldsFrom cur (c # cs) =
     (if isSpace c then (if cur = [] then fieldsFrom [] cs else cur # fieldsFrom [] cs)
      else fieldsFrom (cur @ [c]) cs)"

definition Fields :: "string \<Rightarrow> string list" where
  "Fields s = fieldsFrom [] s"

definition TrimSpace :: "string \<Rightarrow> string" where
  "TrimSpace s = rev (dropWhile isSpace (rev (dropWhile isSpace s)))"

text \<open>
  \<open>strconv.Atoi\<close>: an optional sign and at least one decimal digit, nothing else. It
  returns the value and an error; on a syntax error the value is 0, on a range error it
  is the nearest bound of the 64-bit \<open>int\<close>.
\<close>

definition isDigit :: "char \<Rightarrow> bool" where
  "isDigit c = (48 \<le> (of_char c :: nat) \<and> (of_char c :: nat) \<le> 57)"

definition digitsVal :: "string \<Rightarrow> int" where
  "digitsVal ds = foldl (\<lambda>a c. 10 * a + (int (of_char c) - 48)) 0 ds"

definition Atoi :: "string \<Rightarrow> int \<times> error option" where
  "Atoi s =
     (let (neg, ds) =
        (case s of
           [] \<Rightarrow> (False, [])
         | c # cs \<Rightarrow>
             if c = CHR ''-'' then (True, cs)
             else if c = CHR ''+'' then (False, cs) else (False, s))
      in if ds = [] \<or> \<not> list_all isDigit ds then (0, Some AtoiError)
         else
           let v = (if neg then - digitsVal ds else digitsVal ds)
           in if v < - (2 ^ 63) then (- (2 ^ 63), Some AtoiError)
              else if v > 2 ^ 63 - 1 then (2 ^ 63 - 1, Some AtoiError)
              else (v, None))"

text \<open>
  \<open>strconv.ParseFloat(s, 64)\<close> with its error discarded (\<open>x, _ := ...\<close>) is a parameter
  \<open>pf\<close> of every decoder: the value the call leaves in \<open>x\<close>. Nothing proved below
  depends on which function it is. \<open>parseDigits\<close> is its value on a string of decimal
  digits, used to run the decoders on concrete input.
\<close>

definition parseDigits :: "string \<Rightarrow> real" where
  "parseDigits s = (if s \<noteq> [] \<and> list_all isDigit s then real_of_int (digitsVal s) else 0)"

text \<open>
  The column scan of every \<open>readCfgFirst\<close>: a \<open>switch\<close> over the column names, storing
  the position of each known name and counting the hits.
\<close>

fun indexOf :: "string \<Rightarrow> string list \<Rightarrow> nat option" where
  "indexOf v [] = None"
| "indexOf v (n # ns) =
     (if v = n then Some 0 else (case indexOf v ns of None \<Rightarrow> None | Some j \<Rightarrow> Some (Suc j)))"

fun scanCols :: "string list \<Rightarrow> string list \<Rightarrow> nat \<Rightarrow> nat list \<Rightarrow> nat \<Rightarrow> nat list \<times> nat" where
  "scanCols names [] k cols found = (cols, found)"
| "scanCols names (v # vs) k cols found =
     (case indexOf v names of
        None \<Rightarrow> scanCols names vs (Suc k) cols found
      | Some j \<Rightarrow> scanCols names vs (Suc k) (cols[j := k]) (Suc found))"

subsection \<open>Package util: the frame header\<close>

text \<open>
  \<open>Header\<close>, \<open>HeaderBox\<close> and \<open>HeaderWOutAtoms\<close> take the caller's \<open>readSlice\<close>, which
  reads a slice and (in package nopbc) copies it to the output \<open>w\<close>.
\<close>

type_synonym 'w readSliceFn = "reader \<Rightarrow> 'w \<Rightarrow> string \<times> reader \<times> 'w"

fun readSlices :: "nat \<Rightarrow> 'w readSliceFn \<Rightarrow> reader \<Rightarrow> 'w \<Rightarrow> reader \<times> 'w" where
  "readSlices 0 rs r w = (r, w)"
| "readSlices (Suc n) rs r w = (case rs r w of (b, r', w') \<Rightarrow> readSlices n rs r' w')"

definition boxLine :: "(string \<Rightarrow> real) \<Rightarrow> string \<Rightarrow> error + real" where
  "boxLine pf b =
     (let flds = Fields b
      in if length flds \<noteq> 2 then Inl BoxSizeError
         else Inr (pf (flds ! 1) - pf (flds ! 0)))"

definition HeaderBox ::
  "(string \<Rightarrow> real) \<Rightarrow> 'w readSliceFn \<Rightarrow> reader \<Rightarrow> 'w \<Rightarrow> error + (vec3 \<times> reader \<times> 'w)" where
  "HeaderBox pf rs r w =
     (case rs r w of (b0, r0, w0) \<Rightarrow>
      (case boxLine pf b0 of Inl e \<Rightarrow> Inl e | Inr x \<Rightarrow>
      (case rs r0 w0 of (b1, r1, w1) \<Rightarrow>
      (case boxLine pf b1 of Inl e \<Rightarrow> Inl e | Inr y \<Rightarrow>
      (case rs r1 w1 of (b2, r2, w2) \<Rightarrow>
      (case boxLine pf b2 of Inl e \<Rightarrow> Inl e | Inr z \<Rightarrow>
         Inr ((x, y, z), r2, w2)))))))"

definition Header ::
  "(string \<Rightarrow> real) \<Rightarrow> 'w readSliceFn \<Rightarrow> reader \<Rightarrow> 'w \<Rightarrow> error + (int \<times> vec3 \<times> reader \<times> 'w)" where
  "Header pf rs r w =
     (case readSlices 3 rs r w of (r1, w1) \<Rightarrow>
      (case rs r1 w1 of (b, r2, w2) \<Rightarrow>
        (let atomsStr = TrimSpace b;
             atoms = fst (Atoi atomsStr)
         in (case rs r2 w2 of (b', r3, w3) \<Rightarrow>
              (case HeaderBox pf rs r3 w3 of
                 Inl e \<Rightarrow> Inl e
               | Inr (box, r4, w4) \<Rightarrow> Inr (atoms, box, r4, w4))))))"

definition HeaderWOutAtoms ::
  "(string \<Rightarrow> real) \<Rightarrow> 'w readSliceFn \<Rightarrow> reader \<Rightarrow> 'w \<Rightarrow> error + (vec3 \<times> reader \<times> 'w)" where
  "HeaderWOutAtoms pf rs r w =
     (case readSlices 5 rs r w of (r1, w1) \<Rightarrow> HeaderBox pf rs r1 w1)"

text \<open>
  \<open>ReadCfgNonCvg\<close> discards \<open>x\<close> frames. The atom count is sliced as
  \<open>string(b)[:len(b)-1]\<close>, which panics on the empty slice.
\<close>

definition ReadCfgNonCvg :: "reader \<Rightarrow> int \<Rightarrow> error + reader" where
  "ReadCfgNonCvg r x =
     (if x = 0 then Inr r
      else
        (let r1 = skipLines 3 r; (b, r2) = ReadSlice r1
         in if b = [] then Inl PanicSliceBounds
            else (case Atoi (butlast b) of
                    (atoms, Some e) \<Rightarrow> Inl e
                  | (atoms, None) \<Rightarrow>
                      Inr (skipLines ((x - 1) * (3 + 6 + atoms)) (skipLines (5 + atoms) r2)))))"

section \<open>Package nopbc: removing the periodic boundary conditions\<close>

text \<open>
  The output file is the list of what was written to it: a slice copied from the input,
  or a row of \<open>NoPBC.write\<close>, whose cells are the input's fields with the three
  coordinate columns replaced by numbers.
\<close>

datatype cell = Txt string | Num real

datatype out = Raw string | Row "cell list"

record NoPBC =
  n_Size :: "string \<rightharpoonup> vec3"
  n_atoms :: int
  n_cols :: "nat list"
  n_colsBuf :: string
  n_colsLen :: nat

definition nopbc_readSlice :: "(out list) readSliceFn" where
  "nopbc_readSlice r w = (case ReadSlice r of (b, r') \<Rightarrow> (b, r', w @ [Raw b]))"

definition nopbc_write :: "NoPBC \<Rightarrow> string list \<Rightarrow> vec3 \<Rightarrow> out" where
  "nopbc_write n flds xyz =
     (case xyz of (x, y, z) \<Rightarrow>
        Row (map (\<lambda>(k, v).
               if k = n_cols n ! 0 then Num x
               else if k = n_cols n ! 1 then Num y
               else if k = n_cols n ! 2 then Num z
               else Txt v)
             (zip [0 ..< length flds] flds)))"

text \<open>
  One axis of the first frame (\<open>readCfgFirst\<close>, the \<open>else\<close> branch): an atom of the
  molecule that is being read is compared with the previous atom of that molecule.
\<close>

definition firstAxis :: "real \<Rightarrow> real \<Rightarrow> real \<Rightarrow> real \<Rightarrow> real" where
  "firstAxis box sz lst raw =
     (let xyz = raw; dist = lst - xyz
      in if dist > sz then xyz + box
         else if dist < - sz then xyz - box
         else xyz)"

text \<open>
  The threshold \<open>size\<close> set when a new molecule id starts in the first frame: half the
  box, or the entry of \<open>Size\<close> for that molecule id.
\<close>

definition firstSize :: "NoPBC \<Rightarrow> vec3 \<Rightarrow> string \<Rightarrow> vec3" where
  "firstSize n box2 mol = (case n_Size n mol of None \<Rightarrow> box2 | Some sizeMap \<Rightarrow> sizeMap)"

text \<open>The state of the row loop of \<open>readCfgFirst\<close>: \<open>mol\<close>, \<open>lastXYZ\<close> and \<open>size\<close>.\<close>

definition firstRow ::
  "(string \<Rightarrow> real) \<Rightarrow> NoPBC \<Rightarrow> vec3 \<Rightarrow> vec3 \<Rightarrow> string list \<Rightarrow> string \<times> vec3 \<times> vec3
     \<Rightarrow> string \<times> vec3 \<times> vec3" where
  "firstRow pf n box box2 flds st =
     (case st of (mol, (lx, ly, lz), (sx, sy, sz)) \<Rightarrow>
        if flds ! (n_cols n ! 3) \<noteq> mol then
          (flds ! (n_cols n ! 3),
           (pf (flds ! (n_cols n ! 0)), pf (flds ! (n_cols n ! 1)), pf (flds ! (n_cols n ! 2))),
           firstSize n box2 (flds ! (n_cols n ! 3)))
        else
          (case box of (bx, by, bz) \<Rightarrow>
            (mol,
             (firstAxis bx sx lx (pf (flds ! (n_cols n ! 0))),
              firstAxis by sy ly (pf (flds ! (n_cols n ! 1))),
              firstAxis bz sz lz (pf (flds ! (n_cols n ! 2)))),
             (sx, sy, sz))))"

fun firstRows ::
  "(string \<Rightarrow> real) \<Rightarrow> NoPBC \<Rightarrow> vec3 \<Rightarrow> vec3 \<Rightarrow> nat \<Rightarrow> nat \<Rightarrow> reader \<Rightarrow> out list
     \<Rightarrow> string \<times> vec3 \<times> vec3 \<Rightarrow> vec3 list \<Rightarrow> error + (vec3 list \<times> reader \<times> out list)" where
  "firstRows pf n box box2 i 0 r w st xyz = Inr (xyz, r, w)"
| "firstRows pf n box box2 i (Suc m) r w st xyz =
     (case ReadSlice r of (b, r') \<Rightarrow>
        (let flds = Fields b
         in if length flds \<noteq> n_colsLen n
            then Inl (ColumnsDontMatchId i (length flds) (n_colsLen n))
            else
              (let st' = firstRow pf n box box2 flds st;
                   lastXYZ = fst (snd st')
               in firstRows pf n box box2 (Suc i) m r' (w @ [nopbc_write n flds lastXYZ])
                    st' (xyz @ [lastXYZ]))))"

definition nopbc_rename :: "string \<Rightarrow> string" where
  "nopbc_rename v =
     (if v = ''x'' then ''xu'' else if v = ''y'' then ''yu'' else if v = ''z'' then ''zu'' else v)"

definition nopbc_readCfgFirst ::
  "(string \<Rightarrow> real) \<Rightarrow> NoPBC \<Rightarrow> reader \<Rightarrow> out list
     \<Rightarrow> error + (vec3 list \<times> NoPBC \<times> reader \<times> out list)" where
  "nopbc_readCfgFirst pf n r w =
     (case Header pf nopbc_readSlice r w of
        Inl e \<Rightarrow> Inl (Wrap ''Header'' e)
      | Inr (atoms', box, r1, w1) \<Rightarrow>
          (case box of (bx, by, bz) \<Rightarrow>
          (let box2 = (bx / 2, by / 2, bz / 2);
               (b, r2) = ReadSlice r1;
               flds = Fields b
           in if length flds \<le> 2 then Inl (NotEnoughColumns (length flds))
              else
                (let (cols', found) =
                       scanCols [''x'', ''y'', ''z'', ''mol''] (drop 2 flds) 0 (n_cols n) 0;
                     buf = concat (map (\<lambda>v. v @ '' '') (take 2 flds))
                           @ concat (map (\<lambda>v. nopbc_rename v @ '' '') (drop 2 flds))
                           @ [nl];
                     n' = n\<lparr>n_atoms := atoms', n_cols := cols', n_colsBuf := buf,
                            n_colsLen := length (drop 2 flds)\<rparr>;
                     w2 = w1 @ [Raw buf]
                 in if found < length (n_cols n') then Inl ColumnsNotFound
                    else
                      (case firstRows pf n' box box2 0 (nat atoms') r2 w2
                              ([], (0, 0, 0), (0, 0, 0)) [] of
                         Inl e \<Rightarrow> Inl e
                       | Inr (xyz, r3, w3) \<Rightarrow> Inr (xyz, n', r3, w3))))))"

text \<open>
  One axis of a later frame (\<open>readCfg\<close>, the loop over \<open>k\<close>), with the box length
  \<open>box\<close>, the threshold \<open>box2\<close>, the previous unwrapped coordinate \<open>lst\<close> (\<open>lastXYZ[i][k]\<close>), the running
  correction \<open>corr\<close> and the coordinate \<open>raw\<close> parsed from the row. It returns the new
  correction and the new \<open>lastXYZ[i][k]\<close>, which is the coordinate written out.
\<close>

definition cfgAxis :: "real \<Rightarrow> real \<Rightarrow> real \<Rightarrow> real \<Rightarrow> real \<Rightarrow> real \<times> real" where
  "cfgAxis box box2 lst corr raw =
     (let xyz = raw + corr; dist = lst - xyz
      in if dist > box2 then (corr + box, xyz + box)
         else if dist < - box2 then (corr - box, xyz - box)
         else (corr, xyz))"

definition cfgRow ::
  "(string \<Rightarrow> real) \<Rightarrow> NoPBC \<Rightarrow> vec3 \<Rightarrow> vec3 \<Rightarrow> string list \<Rightarrow> vec3 \<Rightarrow> vec3 \<Rightarrow> vec3 \<times> vec3" where
  "cfgRow pf n box box2 flds lst corr =
     (case (box, box2, lst, corr) of
        ((bx, by, bz), (hx, hy, hz), (lx, ly, lz), (cx, cy, cz)) \<Rightarrow>
          (let (cx', x) = cfgAxis bx hx lx cx (pf (flds ! (n_cols n ! 0)));
               (cy', y) = cfgAxis by hy ly cy (pf (flds ! (n_cols n ! 1)));
               (cz', z) = cfgAxis bz hz lz cz (pf (flds ! (n_cols n ! 2)))
           in ((x, y, z), (cx', cy', cz'))))"

text \<open>
  The row loop of one later frame. \<open>lastXYZ\<close> and \<open>corr\<close> are the two slices indexed by
  the atom's position \<open>i\<close>; both have \<open>n.atoms\<close> entries.
\<close>

fun cfgRows ::
  "(string \<Rightarrow> real) \<Rightarrow> NoPBC \<Rightarrow> vec3 \<Rightarrow> vec3 \<Rightarrow> nat \<Rightarrow> nat \<Rightarrow> reader \<Rightarrow> out list
     \<Rightarrow> vec3 list \<Rightarrow> vec3 list \<Rightarrow> error + (vec3 list \<times> vec3 list \<times> reader \<times> out list)" where
  "cfgRows pf n box box2 i 0 r w lastXYZ corr = Inr (lastXYZ, corr, r, w)"
| "cfgRows pf n box box2 i (Suc m) r w lastXYZ corr =
     (case ReadSlice r of (l, r') \<Rightarrow>
        (let flds = Fields l
         in if length flds \<noteq> n_colsLen n
            then Inl (ColumnsDontMatchId i (length flds) (n_colsLen n))
            else if i \<ge> length lastXYZ \<or> i \<ge> length corr then Inl PanicIndexOutOfRange
            else
              (case cfgRow pf n box box2 flds (lastXYZ ! i) (corr ! i) of
                 (xyz, c) \<Rightarrow>
                   cfgRows pf n box box2 (Suc i) m r' (w @ [nopbc_write n flds xyz])
                     (lastXYZ[i := xyz]) (corr[i := c]))))"
















definition nopbc_New :: "(string \<rightharpoonup> vec3) \<Rightarrow> NoPBC" where
  "nopbc_New sz = \<lparr>n_Size = sz, n_atoms = 0, n_cols = [0, 0, 0, 0], n_colsBuf = [], n_colsLen = 0\<rparr>"

section \<open>Package radiusgyration\<close>

record RadiusGyration =
  r_CfgStart :: int
  r_CfgEnd :: int
  r_AtomStart :: int
  r_AtomEnd :: int
  r_Masses :: "string \<rightharpoonup> real"
  r_Dt :: real
  r_atoms :: int
  r_cols :: "nat list"
  r_colsLen :: nat

text \<open>
  The selected rows of \<open>fetchXYZ\<close>: the loop \<open>for i := 0; i < (r.AtomEnd - r.AtomStart); i++\<close>,
  which checks the number of fields of each row it reads.
\<close>

fun radius_rows ::
  "(string \<Rightarrow> real) \<Rightarrow> RadiusGyration \<Rightarrow> nat \<Rightarrow> reader \<Rightarrow> vec3 list \<Rightarrow> string list
     \<Rightarrow> error + (vec3 list \<times> string list \<times> reader)" where
  "radius_rows pf r 0 rd xyz types = Inr (xyz, types, rd)"
| "radius_rows pf r (Suc m) rd xyz types =
     (case ReadSlice rd of (b, rd') \<Rightarrow>
        (let flds = Fields b
         in if length flds \<noteq> r_colsLen r
            then Inl (ColumnsDontMatch (length flds) (r_colsLen r))
            else
              (let xyzTmp = (pf (flds ! (r_cols r ! 0)), pf (flds ! (r_cols r ! 1)),
                             pf (flds ! (r_cols r ! 2)))
               in radius_rows pf r m rd' (xyz @ [xyzTmp]) (types @ [flds ! (r_cols r ! 3)]))))"

definition radius_fetchXYZ ::
  "(string \<Rightarrow> real) \<Rightarrow> RadiusGyration \<Rightarrow> reader \<Rightarrow> error + (vec3 list \<times> string list \<times> reader)" where
  "radius_fetchXYZ pf r rd =
     (case radius_rows pf r (nat (r_AtomEnd r - r_AtomStart r))
             (skipLines (r_AtomStart r) rd) [] [] of
        Inl e \<Rightarrow> Inl e
      | Inr (xyz, types, rd') \<Rightarrow> Inr (xyz, types, skipLines (r_atoms r - r_AtomEnd r) rd'))"

definition radius_readCfgFirst ::
  "(string \<Rightarrow> real) \<Rightarrow> RadiusGyration \<Rightarrow> reader
     \<Rightarrow> error + (vec3 list \<times> string list \<times> RadiusGyration \<times> reader)" where
  "radius_readCfgFirst pf r rd =
     (let (b, rd1) = ReadSlice (skipLines 3 rd)
      in if b = [] then Inl PanicSliceBounds
         else
           (case Atoi (butlast b) of
              (atoms', Some e) \<Rightarrow> Inl e
            | (atoms', None) \<Rightarrow>
                (let (b', rd2) = ReadSlice (skipLines 4 rd1);
                     flds = Fields b'
                 in if length flds \<le> 2 then Inl (NotEnoughColumns (length flds))
                    else
                      (let (cols', found) =
                             scanCols [''xu'', ''yu'', ''zu'', ''type''] (drop 2 flds) 0 (r_cols r) 0;
                           r' = r\<lparr>r_atoms := atoms', r_cols := cols',
                                  r_colsLen := length (drop 2 flds)\<rparr>
                       in if found < length (r_cols r') then Inl ColumnsNotFound
                          else
                            (case radius_fetchXYZ pf r' rd2 of
                               Inl e \<Rightarrow> Inl (Wrap ''fetchXYZ'' e)
                             | Inr (xyz, types, rd3) \<Rightarrow> Inr (xyz, types, r', rd3))))))"

definition radius_readCfg ::
  "(string \<Rightarrow> real) \<Rightarrow> RadiusGyration \<Rightarrow> reader \<Rightarrow> error + (vec3 list \<times> string list \<times> reader)" where
  "radius_readCfg pf r rd =
     (case radius_fetchXYZ pf r (skipLines 9 rd) of
        Inl e \<Rightarrow> Inl (Wrap ''fetchXYZ'' e)
      | Inr res \<Rightarrow> Inr res)"

text \<open>
  \<open>calc\<close>. The first loop adds up the masses and the mass-weighted coordinates and
  returns an error at the first type without a mass; \<open>types[key]\<close> panics when \<open>types\<close>
  is the shorter slice. The second loop adds up the squared deviations. The row written
  to the output is the frame number, the time and the radius. Where Go divides
  a \<open>float64\<close> by zero it gets an infinity or NaN, which \<open>real\<close> does not have: the
  model is the program only for a nonzero total mass and at least one atom.
\<close>

fun comLoop ::
  "(string \<rightharpoonup> real) \<Rightarrow> vec3 list \<Rightarrow> string list \<Rightarrow> vec3 \<Rightarrow> real \<Rightarrow> error + (vec3 \<times> real)" where
  "comLoop M [] types com massTot = Inr (com, massTot)"
| "comLoop M (v # vs) [] com massTot = Inl PanicIndexOutOfRange"
| "comLoop M (v # vs) (t # ts) com massTot =
     (case M t of
        None \<Rightarrow> Inl (MassMissing t)
      | Some mass \<Rightarrow>
          (case (v, com) of ((vx, vy, vz), (cx, cy, cz)) \<Rightarrow>
             comLoop M vs ts (cx + vx * mass, cy + vy * mass, cz + vz * mass) (massTot + mass)))"

fun msdLoop :: "vec3 list \<Rightarrow> vec3 \<Rightarrow> real \<Rightarrow> real" where
  "msdLoop [] com radius = radius"
| "msdLoop (v # vs) com radius =
     (case (v, com) of ((vx, vy, vz), (cx, cy, cz)) \<Rightarrow>
        msdLoop vs com
          (radius + (vx - cx) * (vx - cx) + (vy - cy) * (vy - cy) + (vz - cz) * (vz - cz)))"

definition radius_calc ::
  "RadiusGyration \<Rightarrow> int \<Rightarrow> vec3 list \<Rightarrow> string list \<Rightarrow> error + (int \<times> real \<times> real)" where
  "radius_calc r cfg xyz types =
     (case comLoop (r_Masses r) xyz types (0, 0, 0) 0 of
        Inl e \<Rightarrow> Inl e
      | Inr ((cx, cy, cz), massTot) \<Rightarrow>
          (let com = (cx / massTot, cy / massTot, cz / massTot);
               radius = msdLoop xyz com 0;
               radius = radius / real (length xyz * 3);
               radius = sqrt radius
           in Inr (cfg + r_CfgStart r, real_of_int (cfg + r_CfgStart r) * r_Dt r, radius)))"

text \<open>
  \<open>Start\<close>, with both files opened. The result is the error \<open>Start\<close> returns, if any, and
  the rows written after the header line. Both calls \<open>r.calc(out, i, xyz, types)\<close> are
  statements: the error \<open>calc\<close> returns is dropped, and the run goes on without a row.
\<close>

definition radius_emit :: "error + (int \<times> real \<times> real) \<Rightarrow> (int \<times> real \<times> real) list \<Rightarrow> (int \<times> real \<times> real) list" where
  "radius_emit res out = (case res of Inl e \<Rightarrow> out | Inr row \<Rightarrow> out @ [row])"

fun radius_loop ::
  "(string \<Rightarrow> real) \<Rightarrow> RadiusGyration \<Rightarrow> int \<Rightarrow> nat \<Rightarrow> reader \<Rightarrow> (int \<times> real \<times> real) list
     \<Rightarrow> error option \<times> (int \<times> real \<times> real) list" where
  "radius_loop pf r i 0 rd out = (None, out)"
| "radius_loop pf r i (Suc k) rd out =
     (case radius_readCfg pf r rd of
        Inl e \<Rightarrow> (Some (WrapStep ''readCfg'' i e), out)
      | Inr (xyz, types, rd') \<Rightarrow>
          radius_loop pf r (i + 1) k rd' (radius_emit (radius_calc r i xyz types) out))"

definition radius_Start ::
  "(string \<Rightarrow> real) \<Rightarrow> RadiusGyration \<Rightarrow> reader \<Rightarrow> error option \<times> (int \<times> real \<times> real) list" where
  "radius_Start pf r rd =
     (case ReadCfgNonCvg rd (r_CfgStart r) of
        Inl e \<Rightarrow> (Some (Wrap ''ReadCfgNonCvg'' e), [])
      | Inr rd1 \<Rightarrow>
          (case radius_readCfgFirst pf r rd1 of
             Inl e \<Rightarrow> (Some (Wrap ''readCfgFirst'' e), [])
           | Inr (xyz, types, r', rd2) \<Rightarrow>
               radius_loop pf r' 1 (nat (r_CfgEnd r' - r_CfgStart r' - 1)) rd2
                 (radius_emit (radius_calc r' 0 xyz types) [])))"

definition radius_New :: "int \<Rightarrow> int \<Rightarrow> int \<Rightarrow> int \<Rightarrow> (string \<rightharpoonup> real) \<Rightarrow> real \<Rightarrow> RadiusGyration" where
  "radius_New cfgStart cfgEnd atomStart atomEnd masses dt =
     \<lparr>r_CfgStart = cfgStart, r_CfgEnd = cfgEnd, r_AtomStart = atomStart, r_AtomEnd = atomEnd,
      r_Masses = masses, r_Dt = dt, r_atoms = 0, r_cols = [0, 0, 0, 0], r_colsLen = 0\<rparr>"

text \<open>
  The radius of gyration in the words of the specification: the mass-weighted centroid,
  and the root of the sum of the squared deviations from it over three times the number
  of atoms.
\<close>

definition massOf :: "(string \<rightharpoonup> real) \<Rightarrow> string \<Rightarrow> real" where
  "massOf M t = (case M t of None \<Rightarrow> 0 | Some m \<Rightarrow> m)"

definition totalMass :: "(string \<rightharpoonup> real) \<Rightarrow> string list \<Rightarrow> real" where
  "totalMass M types = sum_list (map (massOf M) types)"

definition centroid :: "(string \<rightharpoonup> real) \<Rightarrow> vec3 list \<Rightarrow> string list \<Rightarrow> vec3" where
  "centroid M xyz types =
     (sum_list (map (\<lambda>((x, y, z), t). x * massOf M t) (zip xyz types)) / totalMass M types,
      sum_list (map (\<lambda>((x, y, z), t). y * massOf M t) (zip xyz types)) / totalMass M types,
      sum_list (map (\<lambda>((x, y, z), t). z * massOf M t) (zip xyz types)) / totalMass M types)"

definition sqDeviation :: "vec3 \<Rightarrow> vec3 \<Rightarrow> real" where
  "sqDeviation c v =
     (case (v, c) of ((vx, vy, vz), (cx, cy, cz)) \<Rightarrow> (vx - cx)\<^sup>2 + (vy - cy)\<^sup>2 + (vz - cz)\<^sup>2)"

definition gyrationRadius :: "(string \<rightharpoonup> real) \<Rightarrow> vec3 list \<Rightarrow> string list \<Rightarrow> real" where
  "gyrationRadius M xyz types =
     sqrt (sum_list (map (sqDeviation (centroid M xyz types)) xyz) / (3 * real (length xyz)))"

section \<open>Concrete input\<close>

text \<open>
  A frame of a LAMMPS trajectory as the reader delivers it, with a box from 0 to 10 on
  each axis: the atom count line, the column names and the atom rows are given.
\<close>

definition lammpsFrame :: "string \<Rightarrow> string \<Rightarrow> string list \<Rightarrow> reader" where
  "lammpsFrame count columns rows =
     map line ([''ITEM: TIMESTEP'', ''0'', ''ITEM: NUMBER OF ATOMS'', count,
                ''ITEM: BOX BOUNDS pp pp pp'', ''0 10'', ''0 10'', ''0 10'',
                ''ITEM: ATOMS '' @ columns] @ rows)"






text \<open>The two loops of \<open>calc\<close> as sums.\<close>

lemma comLoop_sum:
  assumes "length types = length xyz" and "\<forall>t \<in> set types. M t \<noteq> None"
  shows "comLoop M xyz types (cx, cy, cz) mt =
           Inr ((cx + sum_list (map (\<lambda>((x, y, z), t). x * massOf M t) (zip xyz types)),
                 cy + sum_list (map (\<lambda>((x, y, z), t). y * massOf M t) (zip xyz types)),
                 cz + sum_list (map (\<lambda>((x, y, z), t). z * massOf M t) (zip xyz types))),
                mt + totalMass M types)"
  using assms
proof (induction xyz types arbitrary: cx cy cz mt rule: list_induct2')
  case 1
  then show ?case by (simp add: totalMass_def)
next
  case (2 x xs)
  then show ?case by simp
next
  case (3 y ys)
  then show ?case by simp
next
  case (4 v vs t ts)
  obtain vx vy vz where v: "v = (vx, vy, vz)" by (cases v) auto
  from 4 obtain m where m: "M t = Some m" by auto
  have len: "length ts = length vs" and all: "\<forall>t \<in> set ts. M t \<noteq> None" using 4 by auto
  show ?case
    using "4.IH"[OF len all, of "cx + vx * m" "cy + vy * m" "cz + vz * m" "mt + m"]
    by (simp add: v m massOf_def totalMass_def algebra_simps)
qed

lemma msdLoop_sum: "msdLoop xyz com radius = radius + sum_list (map (sqDeviation com) xyz)"
proof (induction xyz arbitrary: radius)
  case Nil
  then show ?case by simp
next
  case (Cons v vs)
  obtain vx vy vz where v: "v = (vx, vy, vz)" by (cases v) auto
  obtain cx cy cz where c: "com = (cx, cy, cz)" by (cases com) auto
  have "msdLoop (v # vs) com radius = msdLoop vs com (radius + sqDeviation com v)"
    by (simp add: v c sqDeviation_def power2_eq_square add.assoc)
  also have "\<dots> = radius + sqDeviation com v + sum_list (map (sqDeviation com) vs)"
    by (rule Cons.IH)
  finally show ?case by simp
qed

text \<open>A one-frame trajectory with one atom of type 2, decoded.\<close>

lemma radius_readCfgFirst_example:
  "radius_readCfgFirst parseDigits (radius_New 0 1 0 1 [''1'' \<mapsto> 1] 1)
     (lammpsFrame ''1'' ''type xu yu zu'' [''2 5 5 5''])
   = Inr ([(5, 5, 5)], [''2''],
          (radius_New 0 1 0 1 [''1'' \<mapsto> 1] 1)\<lparr>r_atoms := 1, r_cols := [1, 2, 3, 0], r_colsLen := 4\<rparr>,
          [])"
  by (simp add: radius_readCfgFirst_def radius_fetchXYZ_def radius_New_def lammpsFrame_def
        line_def nl_def skipLines_def ReadSlice_def Atoi_def Fields_def isSpace_def isDigit_def
        digitsVal_def parseDigits_def Let_def)

lemma radius_calc_missing:
  "r_Masses r t = None \<Longrightarrow> radius_calc r cfg (v # vs) (t # ts) = Inl (MassMissing t)"
  by (simp add: radius_calc_def)

section \<open>Package gr: the radial distribution function\<close>

text \<open>
  \<open>util.Pow\<close> multiplies \<open>n - 1\<close> times; \<open>math.Round\<close> rounds half away from zero;
  the conversion \<open>int(x)\<close> of a \<open>float64\<close> truncates towards zero.
\<close>

definition Pow :: "real \<Rightarrow> int \<Rightarrow> real" where
  "Pow x n = foldl (\<lambda>res i. res * x) x [0 ..< nat (n - 1)]"

definition Round :: "real \<Rightarrow> real" where
  "Round x = (if x \<ge> 0 then of_int \<lfloor>x + 1 / 2\<rfloor> else - of_int \<lfloor>- x + 1 / 2\<rfloor>)"

definition toInt :: "real \<Rightarrow> int" where
  "toInt x = (if x \<ge> 0 then \<lfloor>x\<rfloor> else \<lceil>x\<rceil>)"

text \<open>
  The squared minimum-image distance, as both \<open>GR.calc\<close> and \<open>Volume.calc\<close> compute it
  in their loop over \<open>k\<close>. A box length of zero makes Go divide by zero; the model is the
  program for nonzero box lengths.
\<close>

definition imageAxis :: "real \<Rightarrow> real \<Rightarrow> real" where
  "imageAxis box distatt = Pow (distatt - box * Round (distatt / box)) 2"

definition imageDist2 :: "vec3 \<Rightarrow> vec3 \<Rightarrow> vec3 \<Rightarrow> real" where
  "imageDist2 box a b =
     (case (box, a, b) of ((bx, by, bz), (ax, ay, az), (cx, cy, cz)) \<Rightarrow>
        0 + imageAxis bx (ax - cx) + imageAxis by (ay - cy) + imageAxis bz (az - cz))"

text \<open>
  \<open>GR\<close>, without the file names and the frame range. \<open>Atoms\<close> is a Go map; its entries are listed in
  the order in which \<open>range\<close> happens to visit them. \<open>XYZ\<close> is the map from a type to the
  coordinates of its atoms; a missing key reads as the empty slice. The histogram
  \<open>hstg\<close> maps a pair of types to one row of bins per atom of the first type.
\<close>

record GR =
  g_Atoms :: "(string \<times> string list) list"
  g_RMax :: real
  g_Dr :: real
  g_bins :: int
  g_rmax2 :: real
  g_atomsTyp :: "string list"
  g_atoms :: int
  g_cols :: "nat list"
  g_colsLen :: nat

type_synonym XYZ = "string \<rightharpoonup> vec3 list"

type_synonym hstg = "string \<times> string \<rightharpoonup> real list list"

definition atomsOf :: "XYZ \<Rightarrow> string \<Rightarrow> vec3 list" where
  "atomsOf xyz typ = (case xyz typ of None \<Rightarrow> [] | Some l \<Rightarrow> l)"

text \<open>
  \<open>New\<close>, after the configuration file is decoded: the number of bins, the squared
  cutoff, and \<open>atomsTyp\<close>, which gets every key of \<open>Atoms\<close> and every listed type not
  yet there. Fewer than two bins is an error.
\<close>

datatype new_error = CfgOrder | TooFewBins

definition gr_atomsTypOf :: "(string \<times> string list) list \<Rightarrow> string list" where
  "gr_atomsTypOf atoms =
     foldl (\<lambda>typ (at1, arrAt2).
              foldl (\<lambda>typ' at2. if at2 \<in> set typ' then typ' else typ' @ [at2]) (typ @ [at1]) arrAt2)
       [] atoms"

definition gr_New :: "(string \<times> string list) list \<Rightarrow> real \<Rightarrow> real \<Rightarrow> int \<Rightarrow> int \<Rightarrow> new_error + GR" where
  "gr_New atoms rmax dr cfgStart cfgEnd =
     (if cfgStart \<ge> cfgEnd then Inl CfgOrder
      else
        (let bins = toInt (rmax / dr)
         in if bins \<le> 1 then Inl TooFewBins
            else Inr \<lparr>g_Atoms = atoms, g_RMax = rmax, g_Dr = dr, g_bins = bins,
                      g_rmax2 = Pow rmax 2, g_atomsTyp = gr_atomsTypOf atoms,
                      g_atoms = 0, g_cols = [0, 0, 0, 0], g_colsLen = 0\<rparr>))"

text \<open>
  The histogram that \<open>Start\<close> allocates after the first frame: for every pair, one row
  of \<open>bins\<close> zeros per atom of the first type in that frame.
\<close>

definition gr_initHstg :: "GR \<Rightarrow> XYZ \<Rightarrow> hstg" where
  "gr_initHstg g xyz =
     foldl (\<lambda>h (at1, arrAt2).
              foldl (\<lambda>h' at2.
                       h'((at1, at2) \<mapsto>
                          replicate (length (atomsOf xyz at1)) (replicate (nat (g_bins g)) 0)))
                h arrAt2)
       Map.empty (g_Atoms g)"

text \<open>
  The bin of a pair of atoms: none beyond the cutoff, otherwise the truncated quotient
  of the distance by \<open>Dr\<close>.
\<close>

definition gr_index :: "GR \<Rightarrow> vec3 \<Rightarrow> vec3 \<Rightarrow> vec3 \<Rightarrow> int option" where
  "gr_index g box xyzAt1 xyzAt2 =
     (let dist = imageDist2 box xyzAt1 xyzAt2
      in if dist \<le> g_rmax2 g then Some (toInt (sqrt dist / g_Dr g)) else None)"

text \<open>
  \<open>g.hstg[[2]string{at1, at2}][xyz1][index] += 1.\<close> with Go's bounds checks: a pair
  without a histogram reads as the nil slice, so every index is out of range there.
\<close>

definition gr_incr :: "hstg \<Rightarrow> string \<times> string \<Rightarrow> nat \<Rightarrow> int \<Rightarrow> error + hstg" where
  "gr_incr h key xyz1 index =
     (case h key of
        None \<Rightarrow> Inl PanicIndexOutOfRange
      | Some rows \<Rightarrow>
          if xyz1 \<ge> length rows then Inl PanicIndexOutOfRange
          else if index < 0 \<or> index \<ge> int (length (rows ! xyz1)) then Inl PanicIndexOutOfRange
          else Inr (h(key \<mapsto> rows[xyz1 := (rows ! xyz1)[nat index := rows ! xyz1 ! nat index + 1]])))"

text \<open>The four nested loops of \<open>calc\<close>, innermost first.\<close>

fun gr_loopAt2 ::
  "GR \<Rightarrow> vec3 \<Rightarrow> string \<times> string \<Rightarrow> nat \<Rightarrow> vec3 \<Rightarrow> vec3 list \<Rightarrow> hstg \<Rightarrow> error + hstg" where
  "gr_loopAt2 g box key xyz1 xyzAt1 [] h = Inr h"
| "gr_loopAt2 g box key xyz1 xyzAt1 (xyzAt2 # rest) h =
     (case gr_index g box xyzAt1 xyzAt2 of
        None \<Rightarrow> gr_loopAt2 g box key xyz1 xyzAt1 rest h
      | Some index \<Rightarrow>
          (case gr_incr h key xyz1 index of
             Inl e \<Rightarrow> Inl e
           | Inr h' \<Rightarrow> gr_loopAt2 g box key xyz1 xyzAt1 rest h'))"

fun gr_loopArr ::
  "GR \<Rightarrow> vec3 \<Rightarrow> XYZ \<Rightarrow> string \<Rightarrow> nat \<Rightarrow> vec3 \<Rightarrow> string list \<Rightarrow> hstg \<Rightarrow> error + hstg" where
  "gr_loopArr g box xyz at1 xyz1 xyzAt1 [] h = Inr h"
| "gr_loopArr g box xyz at1 xyz1 xyzAt1 (at2 # arrAt2) h =
     (case gr_loopAt2 g box (at1, at2) xyz1 xyzAt1 (atomsOf xyz at2) h of
        Inl e \<Rightarrow> Inl e
      | Inr h' \<Rightarrow> gr_loopArr g box xyz at1 xyz1 xyzAt1 arrAt2 h')"

fun gr_loopAt1 ::
  "GR \<Rightarrow> vec3 \<Rightarrow> XYZ \<Rightarrow> string \<Rightarrow> string list \<Rightarrow> nat \<Rightarrow> vec3 list \<Rightarrow> hstg \<Rightarrow> error + hstg" where
  "gr_loopAt1 g box xyz at1 arrAt2 xyz1 [] h = Inr h"
| "gr_loopAt1 g box xyz at1 arrAt2 xyz1 (xyzAt1 # rest) h =
     (case gr_loopArr g box xyz at1 xyz1 xyzAt1 arrAt2 h of
        Inl e \<Rightarrow> Inl e
      | Inr h' \<Rightarrow> gr_loopAt1 g box xyz at1 arrAt2 (Suc xyz1) rest h')"

fun gr_loopAtoms ::
  "GR \<Rightarrow> vec3 \<Rightarrow> XYZ \<Rightarrow> (string \<times> string list) list \<Rightarrow> hstg \<Rightarrow> error + hstg" where
  "gr_loopAtoms g box xyz [] h = Inr h"
| "gr_loopAtoms g box xyz ((at1, arrAt2) # rest) h =
     (case gr_loopAt1 g box xyz at1 arrAt2 0 (atomsOf xyz at1) h of
        Inl e \<Rightarrow> Inl e
      | Inr h' \<Rightarrow> gr_loopAtoms g box xyz rest h')"

text \<open>\<open>calc\<close>: the histogram and the running sum of the box volumes \<open>g.vol\<close>.\<close>

definition gr_calc :: "GR \<Rightarrow> vec3 \<Rightarrow> XYZ \<Rightarrow> hstg \<times> real \<Rightarrow> error + (hstg \<times> real)" where
  "gr_calc g box xyz st =
     (case st of (h, vol) \<Rightarrow>
        (case gr_loopAtoms g box xyz (g_Atoms g) h of
           Inl e \<Rightarrow> Inl e
         | Inr h' \<Rightarrow> (case box of (bx, by, bz) \<Rightarrow> Inr (h', vol + bx * by * bz))))"

text \<open>The receiver that \<open>New\<close> builds for the pair (1, 2), \<open>RMax\<close> = 10 and \<open>Dr\<close> = 3.\<close>

definition gr_example :: GR where
  "gr_example =
     \<lparr>g_Atoms = [(''1'', [''2''])], g_RMax = 10, g_Dr = 3, g_bins = 3, g_rmax2 = 100,
      g_atomsTyp = [''1'', ''2''], g_atoms = 0, g_cols = [0, 0, 0, 0], g_colsLen = 0\<rparr>"

lemma Pow_2: "Pow x 2 = x * x"
  by (simp add: Pow_def)

lemma sqrt_361_4: "sqrt (361 / 4) = 19 / 2"
  by (rule real_sqrt_unique) (simp_all add: power2_eq_square)

lemma gr_example_dist: "imageDist2 (100, 100, 100) (0, 0, 0) (19 / 2, 0, 0) = 361 / 4"
  by (simp add: imageDist2_def imageAxis_def Pow_2 Round_def)

section \<open>Package volume\<close>

text \<open>
  The readers of packages gr and volume pass \<open>Header\<close> a \<open>readSlice\<close> that writes nothing.
\<close>

definition plain_readSlice :: "unit readSliceFn" where
  "plain_readSlice r w = (case ReadSlice r of (b, r') \<Rightarrow> (b, r', w))"

text \<open>
  \<open>Sigma\<close> is a Go map; its entries are listed in the order in which \<open>range\<close> happens to
  visit them. A missing key reads as 0. \<open>Bloc\<close> and \<open>Blocs\<close> have three entries each,
  which \<open>New\<close> checks.
\<close>

definition lookup0 :: "(string \<times> real) list \<Rightarrow> string \<Rightarrow> real" where
  "lookup0 m k = (case map_of m k of None \<Rightarrow> 0 | Some x \<Rightarrow> x)"

record Volume =
  v_CfgStart :: int
  v_CfgEnd :: int
  v_CfgSpacing :: int
  v_Bloc :: vec3
  v_Blocs :: "int \<times> int \<times> int"
  v_Atoms :: "string list"
  v_Sigma :: "(string \<times> real) list"
  v_Dt :: real
  v_atOther :: "string list"
  v_sigma2 :: "(string \<times> real) list"
  v_atoms :: int
  v_cols :: "nat list"
  v_colsLen :: nat

definition volume_New ::
  "int \<Rightarrow> int \<Rightarrow> int \<Rightarrow> vec3 \<Rightarrow> int \<times> int \<times> int \<Rightarrow> string list \<Rightarrow> (string \<times> real) list \<Rightarrow> real
     \<Rightarrow> new_error + Volume" where
  "volume_New cfgStart cfgEnd cfgSpacing bloc blocs atoms sigma dt =
     (if cfgStart \<ge> cfgEnd then Inl CfgOrder
      else Inr \<lparr>v_CfgStart = cfgStart, v_CfgEnd = cfgEnd, v_CfgSpacing = cfgSpacing,
                v_Bloc = bloc, v_Blocs = blocs, v_Atoms = atoms, v_Sigma = sigma, v_Dt = dt,
                v_atOther = filter (\<lambda>atom. atom \<notin> set atoms) (map fst sigma),
                v_sigma2 = map (\<lambda>(atom, s). (atom, Pow s 2)) sigma,
                v_atoms = 0, v_cols = [0, 0, 0, 0], v_colsLen = 0\<rparr>)"

text \<open>
  \<open>fetchXYZ\<close>: every one of the \<open>v.atoms\<close> rows is split and its number of fields
  checked; a row whose type has no entry in \<open>Sigma\<close> is then dropped. The capacity
  \<open>v.atoms / len(v.Sigma)\<close> is an integer division, which panics for an empty \<open>Sigma\<close>.
\<close>

fun volume_rows ::
  "(string \<Rightarrow> real) \<Rightarrow> Volume \<Rightarrow> nat \<Rightarrow> reader \<Rightarrow> XYZ \<Rightarrow> error + (XYZ \<times> reader)" where
  "volume_rows pf v 0 r xyz = Inr (xyz, r)"
| "volume_rows pf v (Suc m) r xyz =
     (case ReadSlice r of (b, r') \<Rightarrow>
        (let flds = Fields b
         in if length flds \<noteq> v_colsLen v
            then Inl (ColumnsDontMatch (length flds) (v_colsLen v))
            else
              (let typ = flds ! (v_cols v ! 3)
               in if map_of (v_Sigma v) typ = None then volume_rows pf v m r' xyz
                  else
                    (let xyzt = (pf (flds ! (v_cols v ! 0)), pf (flds ! (v_cols v ! 1)),
                                 pf (flds ! (v_cols v ! 2)))
                     in volume_rows pf v m r' (xyz(typ \<mapsto> atomsOf xyz typ @ [xyzt]))))))"

definition volume_fetchXYZ ::
  "(string \<Rightarrow> real) \<Rightarrow> Volume \<Rightarrow> reader \<Rightarrow> error + (XYZ \<times> reader)" where
  "volume_fetchXYZ pf v r =
     (if v_Sigma v = [] then Inl PanicDivideByZero
      else volume_rows pf v (nat (v_atoms v)) r (map_of (map (\<lambda>(k, s). (k, [])) (v_Sigma v))))"

definition volume_readCfgFirst ::
  "(string \<Rightarrow> real) \<Rightarrow> Volume \<Rightarrow> reader \<Rightarrow> error + (XYZ \<times> vec3 \<times> Volume \<times> reader)" where
  "volume_readCfgFirst pf v r =
     (case Header pf plain_readSlice r () of
        Inl e \<Rightarrow> Inl (Wrap ''Header'' e)
      | Inr (atoms', box, r1, w) \<Rightarrow>
          (let (b, r2) = ReadSlice r1;
               flds = Fields b
           in if length flds \<le> 2 then Inl (NotEnoughColumns (length flds))
              else
                (let (cols', found) =
                       scanCols [''x'', ''y'', ''z'', ''type''] (drop 2 flds) 0 (v_cols v) 0;
                     v' = v\<lparr>v_atoms := atoms', v_cols := cols',
                            v_colsLen := length (drop 2 flds)\<rparr>
                 in if found < length (v_cols v') then Inl ColumnsNotFound
                    else
                      (case volume_fetchXYZ pf v' r2 of
                         Inl e \<Rightarrow> Inl (Wrap ''fetchXYZ'' e)
                       | Inr (xyz, r3) \<Rightarrow> Inr (xyz, box, v', r3)))))"

definition volume_readCfg ::
  "(string \<Rightarrow> real) \<Rightarrow> Volume \<Rightarrow> reader \<Rightarrow> error + (XYZ \<times> vec3 \<times> reader)" where
  "volume_readCfg pf v r =
     (case HeaderWOutAtoms pf plain_readSlice r () of
        Inl e \<Rightarrow> Inl (Wrap ''HeaderWOutAtoms'' e)
      | Inr (box, r1, w) \<Rightarrow>
          (case volume_fetchXYZ pf v (snd (ReadSlice r1)) of
             Inl e \<Rightarrow> Inl (Wrap ''fetchXYZ'' e)
           | Inr (xyz, r2) \<Rightarrow> Inr (xyz, box, r2)))"

text \<open>
  \<open>calc\<close>, first part: the candidate cells. \<open>ptsX\<close>, \<open>ptsY\<close> and \<open>ptsZ\<close> are Go maps used
  as sets of cell numbers; each analyte atom adds the cells around its own on that axis,
  wrapped once at the box edges.
\<close>

definition wrapCell :: "int \<Rightarrow> int \<Rightarrow> int" where
  "wrapCell boxBlocs pos = (if pos < 0 then pos + boxBlocs else if pos \<ge> boxBlocs then pos - boxBlocs else pos)"

definition cellsAround :: "int \<Rightarrow> int \<Rightarrow> int \<Rightarrow> int set" where
  "cellsAround boxBlocs bloc blocs = wrapCell boxBlocs ` {bloc - blocs .. bloc + blocs}"

definition analytes :: "Volume \<Rightarrow> XYZ \<Rightarrow> (string \<times> vec3) list" where
  "analytes v xyz = concat (map (\<lambda>atom. map (Pair atom) (atomsOf xyz atom)) (v_Atoms v))"


definition ptsX :: "Volume \<Rightarrow> vec3 \<Rightarrow> XYZ \<Rightarrow> int set" where
  "ptsX v box xyz =
     (\<Union>(atom, xyzt) \<in> set (analytes v xyz).
        cellsAround (toInt (Round (fst box / fst (v_Bloc v))))
          (toInt (fst xyzt / fst (v_Bloc v))) (fst (v_Blocs v)))"

definition ptsY :: "Volume \<Rightarrow> vec3 \<Rightarrow> XYZ \<Rightarrow> int set" where
  "ptsY v box xyz =
     (\<Union>(atom, xyzt) \<in> set (analytes v xyz).
        cellsAround (toInt (Round (fst (snd box) / fst (snd (v_Bloc v)))))
          (toInt (fst (snd xyzt) / fst (snd (v_Bloc v)))) (fst (snd (v_Blocs v))))"

definition ptsZ :: "Volume \<Rightarrow> vec3 \<Rightarrow> XYZ \<Rightarrow> int set" where
  "ptsZ v box xyz =
     (\<Union>(atom, xyzt) \<in> set (analytes v xyz).
        cellsAround (toInt (Round (snd (snd box) / snd (snd (v_Bloc v)))))
          (toInt (snd (snd xyzt) / snd (snd (v_Bloc v)))) (snd (snd (v_Blocs v))))"

text \<open>
  \<open>calc\<close>, second part: one candidate cell \<open>lit\<close>. \<open>pos\<close> is its centre. The first pair of
  loops runs over the analyte atoms and keeps the smallest squared distance over
  \<open>sigma2\<close>, starting from \<open>math.MaxFloat64\<close>. The second pair runs over the other atoms
  with the distance over \<open>Sigma\<close>; it leaves both loops at the first atom that is
  strictly nearer. The state is \<open>distTmp\<close> and \<open>ptsTmp\<close>. A \<open>Sigma\<close> of zero makes Go
  divide by zero; the model is the program for nonzero entries.
\<close>

definition MaxFloat64 :: real where
  "MaxFloat64 = (2 ^ 53 - 1) * 2 ^ 971"

definition cellPos :: "Volume \<Rightarrow> int \<times> int \<times> int \<Rightarrow> vec3" where
  "cellPos v lit =
     (case (v_Bloc v, lit) of ((bx, by, bz), (x, y, z)) \<Rightarrow>
        (bx * of_int x + bx / 2, by * of_int y + by / 2, bz * of_int z + bz / 2))"

definition atomsDist :: "Volume \<Rightarrow> vec3 \<Rightarrow> vec3 \<Rightarrow> string \<times> vec3 \<Rightarrow> real" where
  "atomsDist v box pos a = (case a of (atom, xyzt) \<Rightarrow> imageDist2 box xyzt pos / lookup0 (v_sigma2 v) atom)"

definition otherDist :: "Volume \<Rightarrow> vec3 \<Rightarrow> vec3 \<Rightarrow> string \<times> vec3 \<Rightarrow> real" where
  "otherDist v box pos a = (case a of (atom, xyzt) \<Rightarrow> sqrt (imageDist2 box xyzt pos) / lookup0 (v_Sigma v) atom)"

fun atomsInner :: "Volume \<Rightarrow> vec3 \<Rightarrow> vec3 \<Rightarrow> string \<Rightarrow> vec3 list \<Rightarrow> real \<times> bool \<Rightarrow> real \<times> bool" where
  "atomsInner v box pos atom [] st = st"
| "atomsInner v box pos atom (xyzt # rest) (distTmp, ptsTmp) =
     (let dist = atomsDist v box pos (atom, xyzt)
      in if dist < distTmp then atomsInner v box pos atom rest (dist, True)
         else atomsInner v box pos atom rest (distTmp, ptsTmp))"

fun atomsOuter :: "Volume \<Rightarrow> vec3 \<Rightarrow> vec3 \<Rightarrow> XYZ \<Rightarrow> string list \<Rightarrow> real \<times> bool \<Rightarrow> real \<times> bool" where
  "atomsOuter v box pos xyz [] st = st"
| "atomsOuter v box pos xyz (atom # rest) st =
     atomsOuter v box pos xyz rest (atomsInner v box pos atom (atomsOf xyz atom) st)"

fun otherInner :: "Volume \<Rightarrow> vec3 \<Rightarrow> vec3 \<Rightarrow> string \<Rightarrow> vec3 list \<Rightarrow> real \<times> bool \<Rightarrow> real \<times> bool" where
  "otherInner v box pos atom [] st = st"
| "otherInner v box pos atom (xyzt # rest) (distTmp, ptsTmp) =
     (let dist = otherDist v box pos (atom, xyzt)
      in if dist < distTmp then (dist, False)
         else otherInner v box pos atom rest (distTmp, ptsTmp))"

fun otherOuter :: "Volume \<Rightarrow> vec3 \<Rightarrow> vec3 \<Rightarrow> XYZ \<Rightarrow> string list \<Rightarrow> real \<times> bool \<Rightarrow> real \<times> bool" where
  "otherOuter v box pos xyz [] st = st"
| "otherOuter v box pos xyz (atom # rest) st =
     (let st' = otherInner v box pos atom (atomsOf xyz atom) st
      in if \<not> snd st' then st' else otherOuter v box pos xyz rest st')"

definition cellIsAtoms :: "Volume \<Rightarrow> vec3 \<Rightarrow> XYZ \<Rightarrow> int \<times> int \<times> int \<Rightarrow> bool" where
  "cellIsAtoms v box xyz lit =
     snd (otherOuter v box (cellPos v lit) xyz (v_atOther v)
            (atomsOuter v box (cellPos v lit) xyz (v_Atoms v) (MaxFloat64, False)))"

text \<open>
  \<open>pts\<close> holds the candidate cells found to be analyte cells. The row written for the
  frame is its number, the time, the analyte volume and the rest of the box. (The first
  frame's \<open>pts\<close> is also exported to a file of its own, which is left out.)
\<close>

definition volume_pts :: "Volume \<Rightarrow> vec3 \<Rightarrow> XYZ \<Rightarrow> (int \<times> int \<times> int) set" where
  "volume_pts v box xyz =
     {lit \<in> ptsX v box xyz \<times> ptsY v box xyz \<times> ptsZ v box xyz. cellIsAtoms v box xyz lit}"

definition volume_calc :: "Volume \<Rightarrow> int \<Rightarrow> vec3 \<Rightarrow> XYZ \<Rightarrow> int \<times> real \<times> real \<times> real" where
  "volume_calc v cfg box xyz =
     (case (v_Bloc v, box) of ((bx, by, bz), (lx, ly, lz)) \<Rightarrow>
        (let volBloc = bx * by * bz;
             volAt = volBloc * real (card (volume_pts v box xyz));
             volOt = lx * ly * lz - volAt
         in (cfg, real_of_int cfg * v_Dt v, volAt, volOt)))"

section \<open>Package disttwoatoms: the readers\<close>

record DistTwoAtoms =
  d_CfgStart :: int
  d_CfgEnd :: int
  d_Atom1 :: int
  d_Atom2 :: int
  d_Dt :: real
  d_atoms :: int
  d_cols :: "nat list"
  d_colsLen :: nat

definition dist_readXYZ ::
  "(string \<Rightarrow> real) \<Rightarrow> DistTwoAtoms \<Rightarrow> reader \<Rightarrow> error + (vec3 \<times> reader)" where
  "dist_readXYZ pf d r =
     (case ReadSlice r of (b, r') \<Rightarrow>
        (let flds = Fields b
         in if length flds \<noteq> d_colsLen d
            then Inl (ColumnsDontMatch (length flds) (d_colsLen d))
            else Inr ((pf (flds ! (d_cols d ! 0)), pf (flds ! (d_cols d ! 1)),
                       pf (flds ! (d_cols d ! 2))), r')))"

text \<open>
  \<open>fetchXYZ\<close> passes over the rows before, between and after the two atoms with a bare
  \<open>ReadSlice\<close>, and decodes only the rows \<open>Atom1\<close> and \<open>Atom2\<close>.
\<close>

definition dist_fetchXYZ ::
  "(string \<Rightarrow> real) \<Rightarrow> DistTwoAtoms \<Rightarrow> reader \<Rightarrow> error + (vec3 \<times> vec3 \<times> reader)" where
  "dist_fetchXYZ pf d r =
     (case dist_readXYZ pf d (skipLines (d_Atom1 d) r) of
        Inl e \<Rightarrow> Inl (Wrap ''readXYZ'' e)
      | Inr (xyz1, r1) \<Rightarrow>
          (case dist_readXYZ pf d (skipLines (d_Atom2 d - d_Atom1 d - 1) r1) of
             Inl e \<Rightarrow> Inl (Wrap ''readXYZ'' e)
           | Inr (xyz2, r2) \<Rightarrow> Inr (xyz1, xyz2, skipLines (d_atoms d - d_Atom2 d - 1) r2)))"

definition dist_readCfgFirst ::
  "(string \<Rightarrow> real) \<Rightarrow> DistTwoAtoms \<Rightarrow> reader
     \<Rightarrow> error + (vec3 \<times> vec3 \<times> DistTwoAtoms \<times> reader)" where
  "dist_readCfgFirst pf d r =
     (let (b, r1) = ReadSlice (skipLines 3 r)
      in if b = [] then Inl PanicSliceBounds
         else
           (case Atoi (butlast b) of
              (atoms', Some e) \<Rightarrow> Inl e
            | (atoms', None) \<Rightarrow>
                (let (b', r2) = ReadSlice (skipLines 4 r1);
                     flds = Fields b'
                 in if length flds \<le> 2 then Inl (NotEnoughColumns (length flds))
                    else
                      (let (cols', found) =
                             scanCols [''xu'', ''yu'', ''zu''] (drop 2 flds) 0 (d_cols d) 0;
                           d' = d\<lparr>d_atoms := atoms', d_cols := cols',
                                  d_colsLen := length (drop 2 flds)\<rparr>
                       in if found < length (d_cols d') then Inl ColumnsNotFound
                          else
                            (case dist_fetchXYZ pf d' r2 of
                               Inl e \<Rightarrow> Inl (Wrap ''fetchXYZ'' e)
                             | Inr (xyz1, xyz2, r3) \<Rightarrow> Inr (xyz1, xyz2, d', r3))))))"

definition dist_readCfg ::
  "(string \<Rightarrow> real) \<Rightarrow> DistTwoAtoms \<Rightarrow> reader \<Rightarrow> error + (vec3 \<times> vec3 \<times> reader)" where
  "dist_readCfg pf d r =
     (case dist_fetchXYZ pf d (skipLines 9 r) of
        Inl e \<Rightarrow> Inl (Wrap ''fetchXYZ'' e)
      | Inr res \<Rightarrow> Inr res)"

definition dist_New :: "int \<Rightarrow> int \<Rightarrow> int \<Rightarrow> int \<Rightarrow> real \<Rightarrow> DistTwoAtoms" where
  "dist_New cfgStart cfgEnd atom1 atom2 dt =
     \<lparr>d_CfgStart = cfgStart, d_CfgEnd = cfgEnd, d_Atom1 = atom1, d_Atom2 = atom2, d_Dt = dt,
      d_atoms = 0, d_cols = [0, 0, 0], d_colsLen = 0\<rparr>"

section \<open>Package gr: the readers\<close>

definition gr_readXYZ ::
  "(string \<Rightarrow> real) \<Rightarrow> GR \<Rightarrow> reader \<Rightarrow> XYZ \<Rightarrow> error + (string \<times> XYZ \<times> reader)" where
  "gr_readXYZ pf g r xyz =
     (case ReadSlice r of (b, r') \<Rightarrow>
        (let flds = Fields b
         in if length flds \<noteq> g_colsLen g
            then Inl (ColumnsDontMatch (length flds) (g_colsLen g))
            else
              (let typ = flds ! (g_cols g ! 3)
               in (case xyz typ of
                     None \<Rightarrow> Inr (typ, xyz, r')
                   | Some xyzTyp \<Rightarrow>
                       Inr (typ,
                            xyz(typ \<mapsto> xyzTyp @ [(pf (flds ! (g_cols g ! 0)),
                                                  pf (flds ! (g_cols g ! 1)),
                                                  pf (flds ! (g_cols g ! 2)))]),
                            r')))))"

fun gr_rows ::
  "(string \<Rightarrow> real) \<Rightarrow> GR \<Rightarrow> nat \<Rightarrow> reader \<Rightarrow> XYZ \<Rightarrow> error + (XYZ \<times> reader)" where
  "gr_rows pf g 0 r xyz = Inr (xyz, r)"
| "gr_rows pf g (Suc m) r xyz =
     (case gr_readXYZ pf g r xyz of
        Inl e \<Rightarrow> Inl e
      | Inr (typ, xyz', r') \<Rightarrow> gr_rows pf g m r' xyz')"

definition gr_fetchXYZ :: "(string \<Rightarrow> real) \<Rightarrow> GR \<Rightarrow> reader \<Rightarrow> error + (XYZ \<times> reader)" where
  "gr_fetchXYZ pf g r =
     (if g_atomsTyp g = [] then Inl PanicDivideByZero
      else gr_rows pf g (nat (g_atoms g)) r (map_of (map (\<lambda>typ. (typ, [])) (g_atomsTyp g))))"

text \<open>
  The row that the \<open>i\<close>-th \<open>ReadSlice\<close> from a reader returns: past the end of the stream
  it is the empty slice.
\<close>

definition rowAt :: "reader \<Rightarrow> nat \<Rightarrow> string" where
  "rowAt r i = fst (ReadSlice (drop i r))"

definition volume_example :: Volume where
  "volume_example =
     \<lparr>v_CfgStart = 0, v_CfgEnd = 1, v_CfgSpacing = 0, v_Bloc = (1, 1, 1), v_Blocs = (0, 0, 0),
      v_Atoms = [''1''], v_Sigma = [(''1'', 1), (''2'', 1)], v_Dt = 1, v_atOther = [''2''],
      v_sigma2 = [(''1'', 1), (''2'', 1)], v_atoms = 0, v_cols = [0, 0, 0, 0], v_colsLen = 0\<rparr>"

lemma snd_ReadSlice: "snd (ReadSlice r) = tl r"
  by (simp add: ReadSlice_def split: list.splits)

lemma rowAt_0: "rowAt r 0 = fst (ReadSlice r)"
  by (simp add: rowAt_def)

lemma rowAt_Suc: "rowAt r (Suc i) = rowAt (snd (ReadSlice r)) i"
  by (simp add: rowAt_def snd_ReadSlice drop_Suc)

lemma rowAt_drop: "rowAt (drop k r) i = rowAt r (k + i)"
  by (simp add: rowAt_def add.commute)

lemma radius_rows_checked:
  "j < m \<Longrightarrow> length (Fields (rowAt rd j)) \<noteq> r_colsLen r
     \<Longrightarrow> \<exists>e. radius_rows pf r m rd xyz types = Inl e"
proof (induction m arbitrary: j rd xyz types)
  case 0
  then show ?case by simp
next
  case (Suc m)
  obtain b rd' where rs: "ReadSlice rd = (b, rd')" by (cases "ReadSlice rd") auto
  show ?case
  proof (cases "length (Fields b) = r_colsLen r")
    case False
    with rs show ?thesis by (simp add: Let_def)
  next
    case True
    with Suc.prems rs obtain j' where j: "j = Suc j'" by (cases j) (auto simp: rowAt_0)
    with Suc.prems rs have "j' < m" "length (Fields (rowAt rd' j')) \<noteq> r_colsLen r"
      by (simp_all add: rowAt_Suc)
    from Suc.IH[OF this] True rs show ?thesis by (simp add: Let_def)
  qed
qed

lemma volume_rows_checked:
  "j < m \<Longrightarrow> length (Fields (rowAt r j)) \<noteq> v_colsLen v
     \<Longrightarrow> \<exists>e. volume_rows pf v m r xyz = Inl e"
proof (induction m arbitrary: j r xyz)
  case 0
  then show ?case by simp
next
  case (Suc m)
  obtain b r' where rs: "ReadSlice r = (b, r')" by (cases "ReadSlice r") auto
  show ?case
  proof (cases "length (Fields b) = v_colsLen v")
    case False
    with rs show ?thesis by (simp add: Let_def)
  next
    case True
    with Suc.prems rs obtain j' where j: "j = Suc j'" by (cases j) (auto simp: rowAt_0)
    with Suc.prems rs have "j' < m" "length (Fields (rowAt r' j')) \<noteq> v_colsLen v"
      by (simp_all add: rowAt_Suc)
    from Suc.IH[OF this] True rs show ?thesis by (simp add: Let_def)
  qed
qed

lemma gr_rows_checked:
  "j < m \<Longrightarrow> length (Fields (rowAt r j)) \<noteq> g_colsLen g
     \<Longrightarrow> \<exists>e. gr_rows pf g m r xyz = Inl e"
proof (induction m arbitrary: j r xyz)
  case 0
  then show ?case by simp
next
  case (Suc m)
  obtain b r' where rs: "ReadSlice r = (b, r')" by (cases "ReadSlice r") auto
  show ?case
  proof (cases "length (Fields b) = g_colsLen g")
    case False
    with rs show ?thesis by (simp add: gr_readXYZ_def Let_def)
  next
    case True
    with Suc.prems rs obtain j' where j: "j = Suc j'" by (cases j) (auto simp: rowAt_0)
    with Suc.prems rs have "j' < m" "length (Fields (rowAt r' j')) \<noteq> g_colsLen g"
      by (simp_all add: rowAt_Suc)
    from Suc.IH[OF this] True rs show ?thesis
      by (auto simp: gr_readXYZ_def Let_def split: option.splits)
  qed
qed

lemma firstRows_checked:
  "j < m \<Longrightarrow> length (Fields (rowAt r j)) \<noteq> n_colsLen n
     \<Longrightarrow> \<exists>e. firstRows pf n box box2 i m r w st xyz = Inl e"
proof (induction m arbitrary: j i r w st xyz)
  case 0
  then show ?case by simp
next
  case (Suc m)
  obtain b r' where rs: "ReadSlice r = (b, r')" by (cases "ReadSlice r") auto
  show ?case
  proof (cases "length (Fields b) = n_colsLen n")
    case False
    with rs show ?thesis by (simp add: Let_def)
  next
    case True
    with Suc.prems rs obtain j' where j: "j = Suc j'" by (cases j) (auto simp: rowAt_0)
    with Suc.prems rs have "j' < m" "length (Fields (rowAt r' j')) \<noteq> n_colsLen n"
      by (simp_all add: rowAt_Suc)
    from Suc.IH[OF this] True rs show ?thesis by (simp add: Let_def)
  qed
qed

lemma cfgRows_checked:
  "j < m \<Longrightarrow> length (Fields (rowAt r j)) \<noteq> n_colsLen n
     \<Longrightarrow> \<exists>e. cfgRows pf n box box2 i m r w lastXYZ corr = Inl e"
proof (induction m arbitrary: j i r w lastXYZ corr)
  case 0
  then show ?case by simp
next
  case (Suc m)
  obtain b r' where rs: "ReadSlice r = (b, r')" by (cases "ReadSlice r") auto
  show ?case
  proof (cases "length (Fields b) = n_colsLen n")
    case False
    with rs show ?thesis by (simp add: Let_def)
  next
    case True
    with Suc.prems rs obtain j' where j: "j = Suc j'" by (cases j) (auto simp: rowAt_0)
    with Suc.prems rs have "j' < m" "length (Fields (rowAt r' j')) \<noteq> n_colsLen n"
      by (simp_all add: rowAt_Suc)
    from Suc.IH[OF this] True rs show ?thesis
      by (auto simp: Let_def split: prod.splits)
  qed
qed

lemma dist_readXYZ_row:
  "dist_readXYZ pf d (drop i r) =
     (if length (Fields (rowAt r i)) \<noteq> d_colsLen d
      then Inl (ColumnsDontMatch (length (Fields (rowAt r i))) (d_colsLen d))
      else Inr ((pf (Fields (rowAt r i) ! (d_cols d ! 0)), pf (Fields (rowAt r i) ! (d_cols d ! 1)),
                 pf (Fields (rowAt r i) ! (d_cols d ! 2))), drop (Suc i) r))"
proof -
  have "snd (ReadSlice (drop i r)) = drop (Suc i) r"
    by (simp add: snd_ReadSlice drop_Suc tl_drop)
  then show ?thesis
    by (cases "ReadSlice (drop i r)") (simp add: dist_readXYZ_def rowAt_def Let_def)
qed

lemma dist_fetchXYZ_checked:
  assumes "0 \<le> d_Atom1 d" and "d_Atom1 d < d_Atom2 d"
    and "length (Fields (rowAt r (nat (d_Atom1 d)))) \<noteq> d_colsLen d
         \<or> length (Fields (rowAt r (nat (d_Atom2 d)))) \<noteq> d_colsLen d"
  shows "\<exists>e. dist_fetchXYZ pf d r = Inl e"
proof -
  have idx: "Suc (nat (d_Atom1 d)) + nat (d_Atom2 d - d_Atom1 d - 1) = nat (d_Atom2 d)"
    using assms(1,2) by simp
  have row2: "rowAt (drop (Suc (nat (d_Atom1 d))) r) (nat (d_Atom2 d - d_Atom1 d - 1))
                = rowAt r (nat (d_Atom2 d))"
    by (simp only: rowAt_drop idx)
  show ?thesis
    using assms(3)
    by (auto simp: dist_fetchXYZ_def skipLines_def dist_readXYZ_row row2)
qed





























subsection \<open>Package volume: Start\<close>

text \<open>
  What the readers of package volume consume: every \<open>ReadSlice\<close> takes one slice off the
  stream, so a frame header takes eight and a frame \<open>9 + v.atoms\<close>.
\<close>

lemma ReadSlice_drop: "ReadSlice r = (rowAt r 0, drop 1 r)"
  by (simp add: rowAt_def ReadSlice_def drop_Suc split: list.splits)

lemma plain_readSlice_drop: "plain_readSlice r w = (rowAt r 0, drop 1 r, w)"
  by (simp add: plain_readSlice_def ReadSlice_drop)

lemma readSlices_plain: "readSlices k plain_readSlice r w = (drop k r, w)"
  by (induction k arbitrary: r) (simp_all add: plain_readSlice_drop)

lemma HeaderBox_plain:
  "HeaderBox pf plain_readSlice r w =
     (case boxLine pf (rowAt r 0) of Inl e \<Rightarrow> Inl e | Inr x \<Rightarrow>
      (case boxLine pf (rowAt r 1) of Inl e \<Rightarrow> Inl e | Inr y \<Rightarrow>
      (case boxLine pf (rowAt r 2) of Inl e \<Rightarrow> Inl e | Inr z \<Rightarrow>
         Inr ((x, y, z), drop 3 r, w))))"
  by (auto simp: HeaderBox_def plain_readSlice_drop rowAt_drop numeral_2_eq_2 numeral_3_eq_3
      split: sum.splits)

lemma HeaderWOutAtoms_plain:
  "HeaderWOutAtoms pf plain_readSlice r w =
     (case boxLine pf (rowAt r 5) of Inl e \<Rightarrow> Inl e | Inr x \<Rightarrow>
      (case boxLine pf (rowAt r 6) of Inl e \<Rightarrow> Inl e | Inr y \<Rightarrow>
      (case boxLine pf (rowAt r 7) of Inl e \<Rightarrow> Inl e | Inr z \<Rightarrow>
         Inr ((x, y, z), drop 8 r, w))))"
  by (simp add: HeaderWOutAtoms_def readSlices_plain HeaderBox_plain rowAt_drop
      split: sum.splits)

lemma Header_plain:
  "Header pf plain_readSlice r w =
     (case boxLine pf (rowAt r 5) of Inl e \<Rightarrow> Inl e | Inr x \<Rightarrow>
      (case boxLine pf (rowAt r 6) of Inl e \<Rightarrow> Inl e | Inr y \<Rightarrow>
      (case boxLine pf (rowAt r 7) of Inl e \<Rightarrow> Inl e | Inr z \<Rightarrow>
         Inr (fst (Atoi (TrimSpace (rowAt r 3))), (x, y, z), drop 8 r, w))))"
  by (simp add: Header_def readSlices_plain plain_readSlice_drop HeaderBox_plain rowAt_drop
      Let_def split: sum.splits)

lemma volume_rows_drop:
  "volume_rows pf v m r xyz = Inr (xyz', r') \<Longrightarrow> r' = drop m r"
proof (induction m arbitrary: r xyz)
  case 0
  then show ?case by simp
next
  case (Suc m)
  from Suc.prems show ?case
    by (auto simp: ReadSlice_drop Let_def split: if_splits dest!: Suc.IH)
qed

lemma volume_fetchXYZ_drop:
  "volume_fetchXYZ pf v r = Inr (xyz, r') \<Longrightarrow> r' = drop (nat (v_atoms v)) r"
  by (auto simp: volume_fetchXYZ_def split: if_splits dest: volume_rows_drop)

lemma volume_readCfg_drop:
  "volume_readCfg pf v r = Inr (xyz, box, r') \<Longrightarrow> r' = drop (9 + nat (v_atoms v)) r"
  by (auto simp: volume_readCfg_def HeaderWOutAtoms_plain ReadSlice_drop add.commute
      split: sum.splits dest!: volume_fetchXYZ_drop)

lemma ReadCfgNonCvg_length:
  assumes "ReadCfgNonCvg r x = Inr r'" and "x \<noteq> 0"
  shows "length r' < length r"
proof -
  from assms have "rowAt r 3 \<noteq> []"
    by (auto simp: ReadCfgNonCvg_def skipLines_def ReadSlice_drop rowAt_drop Let_def
        split: if_splits)
  then have "3 < length r"
    by (cases "3 < length r") (simp_all add: rowAt_def ReadSlice_def)
  with assms show ?thesis
    by (auto simp: ReadCfgNonCvg_def skipLines_def ReadSlice_drop rowAt_drop Let_def
        split: if_splits prod.splits option.splits)
qed

text \<open>
  \<open>Volume.start\<close> is run by \<open>runtime.NumCPU()\<close> goroutines. Each turn of its loop takes
  the mutex, advances \<open>v.cfg\<close>, discards \<open>CfgSpacing\<close> frames, decodes one frame and releases
  the mutex before \<open>calc\<close>; nothing else touches \<open>v.cfg\<close>, \<open>v.err\<close> or the reader. The
  model is the sequence of these sections in the order in which the mutex is taken, whichever
  goroutine takes it: the goroutine that finds \<open>v.cfg >= v.CfgEnd\<close> or sets \<open>v.err\<close> leaves, and
  every other then leaves at its next turn without reading. The rows are listed in the
  order of the sections; the order in which \<open>calc\<close> writes them to the file is the
  scheduler's. The coordinates file that \<open>calc\<close> writes for the first frame is left out.
\<close>

type_synonym volume_row = "int \<times> real \<times> real \<times> real"

function volume_start ::
  "(string \<Rightarrow> real) \<Rightarrow> Volume \<Rightarrow> int \<Rightarrow> reader \<Rightarrow> error option \<times> volume_row list" where
  "volume_start pf v cfg r =
     (if cfg + v_CfgSpacing v + 1 \<ge> v_CfgEnd v then (None, [])
      else
        (case ReadCfgNonCvg r (v_CfgSpacing v) of
           Inl e \<Rightarrow> (Some (WrapStep ''ReadCfgNonCvg'' (cfg + v_CfgSpacing v + 1) e), [])
         | Inr r1 \<Rightarrow>
             (case volume_readCfg pf v r1 of
                Inl e \<Rightarrow> (Some (WrapStep ''readCfg'' (cfg + v_CfgSpacing v + 1) e), [])
              | Inr (xyz, box, r2) \<Rightarrow>
                  (case volume_start pf v (cfg + v_CfgSpacing v + 1) r2 of
                     (err, rows) \<Rightarrow>
                       (err, volume_calc v (cfg + v_CfgSpacing v + 1) box xyz # rows)))))"
  by pat_completeness auto

termination
proof (relation "measure (\<lambda>(pf, v, cfg, r).
          if 0 \<le> v_CfgSpacing v then nat (v_CfgEnd v - cfg) else length r)")
  show "wf (measure (\<lambda>(pf, v, cfg, r).
          if 0 \<le> v_CfgSpacing v then nat (v_CfgEnd v - cfg) else length r))"
    by simp
next
  fix pf :: "string \<Rightarrow> real" and v :: Volume and cfg :: int and r r1 :: reader
    and x2 :: "XYZ \<times> vec3 \<times> reader" and xyz :: XYZ and y :: "vec3 \<times> reader"
    and box :: vec3 and r2 :: reader
  assume lt: "\<not> v_CfgEnd v \<le> cfg + v_CfgSpacing v + 1"
    and skip: "ReadCfgNonCvg r (v_CfgSpacing v) = Inr r1"
    and rd: "volume_readCfg pf v r1 = Inr x2"
    and x2: "(xyz, y) = x2" and y: "(box, r2) = y"
  from rd x2 y have "volume_readCfg pf v r1 = Inr (xyz, box, r2)" by simp
  then have le: "length r2 \<le> length r1" by (auto dest: volume_readCfg_drop)
  show "((pf, v, cfg + v_CfgSpacing v + 1, r2), (pf, v, cfg, r))
          \<in> measure (\<lambda>(pf, v, cfg, r).
               if 0 \<le> v_CfgSpacing v then nat (v_CfgEnd v - cfg) else length r)"
  proof (cases "0 \<le> v_CfgSpacing v")
    case True
    with lt show ?thesis by simp
  next
    case False
    then have "v_CfgSpacing v \<noteq> 0" by simp
    from ReadCfgNonCvg_length[OF skip this] le False show ?thesis by simp
  qed
qed

declare volume_start.simps [simp del]

text \<open>
  \<open>Start\<close>: the first \<open>CfgStart\<close> frames are discarded, the next frame is decoded by
  \<open>readCfgFirst\<close> and computed, and the loop runs from there.
\<close>

definition volume_Start ::
  "(string \<Rightarrow> real) \<Rightarrow> Volume \<Rightarrow> reader \<Rightarrow> error option \<times> volume_row list" where
  "volume_Start pf v r =
     (case ReadCfgNonCvg r (v_CfgStart v) of
        Inl e \<Rightarrow> (Some (Wrap ''ReadCfgNonCvg'' e), [])
      | Inr r1 \<Rightarrow>
          (case volume_readCfgFirst pf v r1 of
             Inl e \<Rightarrow> (Some (Wrap ''readCfgFirst'' e), [])
           | Inr (xyz, box, v', r2) \<Rightarrow>
               (case volume_start pf v' (v_CfgStart v') r2 of
                  (err, rows) \<Rightarrow> (err, volume_calc v' (v_CfgStart v') box xyz # rows))))"


text \<open>
  The frame indices in the words of the specification: \<open>CfgStart\<close>,
  \<open>CfgStart + (CfgSpacing + 1)\<close>, \<open>CfgStart + 2 (CfgSpacing + 1)\<close>, ... strictly below
  \<open>CfgEnd\<close>.
\<close>

definition frameIndices :: "Volume \<Rightarrow> int list" where
  "frameIndices v =
     filter (\<lambda>i. (i - v_CfgStart v) mod (v_CfgSpacing v + 1) = 0) [v_CfgStart v .. v_CfgEnd v - 1]"

text \<open>A trajectory as a list of frames: what the readers do on a frame followed by more.\<close>

lemma rowAt_append: "i < length f \<Longrightarrow> rowAt (f @ s) i = rowAt f i"
  by (cases "drop i f") (simp_all add: rowAt_def ReadSlice_def)

lemma volume_rows_append:
  "m \<le> length f \<Longrightarrow>
     volume_rows pf v m (f @ s) xyz =
       (case volume_rows pf v m f xyz of Inl e \<Rightarrow> Inl e | Inr (x, r') \<Rightarrow> Inr (x, r' @ s))"
proof (induction m arbitrary: f xyz)
  case 0
  then show ?case by simp
next
  case (Suc m)
  then obtain b f' where f: "f = b # f'" by (cases f) auto
  with Suc.prems have "m \<le> length f'" by simp
  then show ?case
    by (simp add: f ReadSlice_def Let_def Suc.IH fun_upd_def)
qed

lemma volume_fetchXYZ_append:
  "nat (v_atoms v) \<le> length f \<Longrightarrow>
     volume_fetchXYZ pf v (f @ s) =
       (case volume_fetchXYZ pf v f of Inl e \<Rightarrow> Inl e | Inr (x, r') \<Rightarrow> Inr (x, r' @ s))"
  by (simp add: volume_fetchXYZ_def volume_rows_append)

lemma volume_readCfg_plain:
  "volume_readCfg pf v r =
     (case boxLine pf (rowAt r 5) of Inl e \<Rightarrow> Inl (Wrap ''HeaderWOutAtoms'' e) | Inr x \<Rightarrow>
      (case boxLine pf (rowAt r 6) of Inl e \<Rightarrow> Inl (Wrap ''HeaderWOutAtoms'' e) | Inr y \<Rightarrow>
      (case boxLine pf (rowAt r 7) of Inl e \<Rightarrow> Inl (Wrap ''HeaderWOutAtoms'' e) | Inr z \<Rightarrow>
      (case volume_fetchXYZ pf v (drop 9 r) of
         Inl e \<Rightarrow> Inl (Wrap ''fetchXYZ'' e)
       | Inr (xyz, r2) \<Rightarrow> Inr (xyz, (x, y, z), r2)))))"
  by (simp add: volume_readCfg_def HeaderWOutAtoms_plain ReadSlice_drop split: sum.splits)

lemma volume_readCfg_append:
  assumes "length f = 9 + nat (v_atoms v)"
    and "volume_readCfg pf v f = Inr (xyz, box, r')"
  shows "volume_readCfg pf v (f @ s) = Inr (xyz, box, s)"
proof -
  from assms have r': "r' = []" by (auto dest: volume_readCfg_drop)
  have rows: "rowAt (f @ s) 5 = rowAt f 5" "rowAt (f @ s) 6 = rowAt f 6"
    "rowAt (f @ s) 7 = rowAt f 7"
    using assms(1) by (simp_all add: rowAt_append)
  have dr: "drop 9 (f @ s) = drop 9 f @ s"
    using assms(1) by simp
  have le: "nat (v_atoms v) \<le> length (drop 9 f)"
    using assms(1) by simp
  from assms(2) show ?thesis
    unfolding volume_readCfg_plain rows dr volume_fetchXYZ_append[OF le] r'
    by (simp split: sum.splits prod.splits)
qed


lemma volume_readCfgFirst_plain:
  "volume_readCfgFirst pf v r =
     (case boxLine pf (rowAt r 5) of Inl e \<Rightarrow> Inl (Wrap ''Header'' e) | Inr x \<Rightarrow>
      (case boxLine pf (rowAt r 6) of Inl e \<Rightarrow> Inl (Wrap ''Header'' e) | Inr y \<Rightarrow>
      (case boxLine pf (rowAt r 7) of Inl e \<Rightarrow> Inl (Wrap ''Header'' e) | Inr z \<Rightarrow>
         (let flds = Fields (rowAt r 8)
          in if length flds \<le> 2 then Inl (NotEnoughColumns (length flds))
             else
               (let (cols', found) =
                      scanCols [''x'', ''y'', ''z'', ''type''] (drop 2 flds) 0 (v_cols v) 0;
                    v' = v\<lparr>v_atoms := fst (Atoi (TrimSpace (rowAt r 3))), v_cols := cols',
                           v_colsLen := length (drop 2 flds)\<rparr>
                in if found < length (v_cols v') then Inl ColumnsNotFound
                   else
                     (case volume_fetchXYZ pf v' (drop 9 r) of
                        Inl e \<Rightarrow> Inl (Wrap ''fetchXYZ'' e)
                      | Inr (xyz, r3) \<Rightarrow> Inr (xyz, (x, y, z), v', r3)))))))"
  by (simp add: volume_readCfgFirst_def Header_plain ReadSlice_drop rowAt_drop Let_def
      split: sum.splits prod.splits)

lemma volume_readCfgFirst_fields:
  assumes "volume_readCfgFirst pf v r = Inr (xyz, box, v', r')"
  shows "v_atoms v' = fst (Atoi (TrimSpace (rowAt r 3)))"
    and "v_CfgStart v' = v_CfgStart v" and "v_CfgEnd v' = v_CfgEnd v"
    and "v_CfgSpacing v' = v_CfgSpacing v"
  using assms
  by (auto simp: volume_readCfgFirst_plain Let_def split: sum.splits prod.splits if_splits)

lemma volume_readCfgFirst_append:
  assumes "length f = 9 + n"
    and "volume_readCfgFirst pf v f = Inr (xyz, box, v', r')"
    and "v_atoms v' = int n"
  shows "volume_readCfgFirst pf v (f @ s) = Inr (xyz, box, v', s)"
proof -
  have atoms: "fst (Atoi (TrimSpace (rowAt f 3))) = int n"
    using volume_readCfgFirst_fields(1)[OF assms(2)] assms(3) by simp
  have rows: "rowAt (f @ s) 3 = rowAt f 3" "rowAt (f @ s) 5 = rowAt f 5"
    "rowAt (f @ s) 6 = rowAt f 6" "rowAt (f @ s) 7 = rowAt f 7" "rowAt (f @ s) 8 = rowAt f 8"
    using assms(1) by (simp_all add: rowAt_append)
  have dr: "drop 9 (f @ s) = drop 9 f @ s"
    using assms(1) by simp
  have app: "\<And>w. v_atoms w = int n \<Longrightarrow>
      volume_fetchXYZ pf w (drop 9 f @ s) =
        (case volume_fetchXYZ pf w (drop 9 f) of Inl e \<Rightarrow> Inl e | Inr (x, r') \<Rightarrow> Inr (x, r' @ s))"
    using assms(1) by (intro volume_fetchXYZ_append) simp
  have nil: "\<And>w x r'. v_atoms w = int n \<Longrightarrow> volume_fetchXYZ pf w (drop 9 f) = Inr (x, r')
      \<Longrightarrow> r' = []"
    using assms(1) by (auto dest: volume_fetchXYZ_drop)
  from assms(2) show ?thesis
    unfolding volume_readCfgFirst_plain rows dr
    by (auto simp: Let_def atoms app split: sum.splits prod.splits if_splits dest: nil[rotated])
qed


lemma drop_concat_frames:
  "\<forall>f \<in> set Fs. length f = L \<Longrightarrow> drop (k * L) (concat Fs) = concat (drop k Fs)"
proof (induction Fs arbitrary: k)
  case Nil
  then show ?case by simp
next
  case (Cons f Fs)
  show ?case
  proof (cases k)
    case 0
    then show ?thesis by simp
  next
    case (Suc k')
    with Cons show ?thesis by simp
  qed
qed

lemma rowAt_nth: "i < length r \<Longrightarrow> rowAt r i = r ! i"
  by (simp add: rowAt_def ReadSlice_def hd_drop_conv_nth[symmetric] hd_def split: list.splits)

lemma ReadCfgNonCvg_frames:
  assumes wf: "\<forall>f \<in> set Fs. length f = 9 + n \<and> f ! 3 \<noteq> [] \<and> Atoi (butlast (f ! 3)) = (int n, None)"
    and x: "0 \<le> x" "nat x \<le> length Fs"
  shows "ReadCfgNonCvg (concat Fs) x = Inr (concat (drop (nat x) Fs))"
proof (cases "x = 0")
  case True
  then show ?thesis by (simp add: ReadCfgNonCvg_def)
next
  case False
  with x obtain k where k: "x = 1 + int k" by (metis add.commute nat_0_le not0_implies_Suc nat_eq_iff2 of_nat_Suc zero_less_nat_eq less_le)
  with x obtain f Fs' where Fs: "Fs = f # Fs'" by (cases Fs) auto
  with wf have f: "length f = 9 + n" "f ! 3 \<noteq> []" "Atoi (butlast (f ! 3)) = (int n, None)"
    by simp_all
  have row: "rowAt (concat Fs) 3 = f ! 3"
    using f(1) by (simp add: Fs rowAt_append rowAt_nth nth_append)
  from wf have len: "\<forall>f \<in> set Fs. length f = 9 + n" by simp
  have "nat (int k * (9 + int n)) = k * (9 + n)"
    by (metis nat_int of_nat_add of_nat_mult of_nat_numeral)
  then have ar: "nat (int k * (9 + int n)) + (nat (5 + int n) + 4) = Suc k * (9 + n)"
    by simp
  have "ReadCfgNonCvg (concat Fs) x = Inr (drop (Suc k * (9 + n)) (concat Fs))"
    using False f(2,3)
    by (simp add: ReadCfgNonCvg_def skipLines_def ReadSlice_drop rowAt_drop row Let_def k ar)
  also have "drop (Suc k * (9 + n)) (concat Fs) = concat (drop (Suc k) Fs)"
    by (rule drop_concat_frames[OF len])
  finally show ?thesis
    using k by (simp add: nat_add_distrib)
qed


text \<open>The indices, stepping by \<open>CfgSpacing + 1\<close> as the loop does.\<close>

lemma filter_upto_drop:
  assumes "a \<le> b" and "\<forall>i. a \<le> i \<and> i < b \<longrightarrow> \<not> P i"
  shows "filter P [a .. e] = filter P [b .. e]"
proof (cases "b \<le> e + 1")
  case True
  show ?thesis
  proof (cases "a = b")
    case False
    with assms(1) True have "[a .. e] = [a .. b - 1] @ [(b - 1) + 1 .. e]"
      by (intro upto_split2) simp_all
    moreover from assms(2) have "filter P [a .. b - 1] = []"
      by (simp add: filter_empty_conv)
    ultimately show ?thesis by simp
  qed simp
next
  case False
  then have "[b .. e] = []" by simp
  moreover from assms(2) False have "filter P [a .. e] = []"
    by (simp add: filter_empty_conv)
  ultimately show ?thesis by simp
qed

lemma step_not_index:
  assumes "0 \<le> s" and "(c - a) mod (s + 1) = 0" and "c < i" and "i < c + s + 1"
  shows "(i - a) mod (s + 1) \<noteq> (0::int)"
proof -
  have "(i - a) mod (s + 1) = ((c - a) + (i - c)) mod (s + 1)" by simp
  also have "\<dots> = ((c - a) mod (s + 1) + (i - c) mod (s + 1)) mod (s + 1)"
    by (simp only: mod_add_eq)
  also have "\<dots> = (i - c) mod (s + 1)" using assms(2) by simp
  also have "\<dots> = i - c" using assms by simp
  finally show ?thesis using assms(3) by simp
qed

lemma frameIndices_step:
  assumes "0 \<le> s" and "(c - a) mod (s + 1) = 0" and "c \<le> e"
  shows "filter (\<lambda>i. (i - a) mod (s + 1) = 0) [c .. e]
           = c # filter (\<lambda>i. (i - a) mod (s + 1) = 0) [c + s + 1 .. e]"
proof -
  have "[c .. e] = c # [c + 1 .. e]" using assms(3) by (simp add: upto_rec1)
  moreover have "filter (\<lambda>i. (i - a) mod (s + 1) = 0) [c + 1 .. e]
                   = filter (\<lambda>i. (i - a) mod (s + 1) = 0) [c + s + 1 .. e]"
    using assms(1) step_not_index[OF assms(1,2)]
    by (intro filter_upto_drop) auto
  ultimately show ?thesis using assms(2) by simp
qed


text \<open>
  The loop on a trajectory of well-formed frames, the reader standing behind frame \<open>c\<close>:
  it decodes the frames \<open>c + (CfgSpacing + 1)\<close>, \<open>c + 2 (CfgSpacing + 1)\<close>, ... below
  \<open>CfgEnd\<close>, each from its own lines alone.
\<close>

lemma volume_start_frames:
  assumes wf: "\<forall>f \<in> set F. length f = 9 + n \<and> f ! 3 \<noteq> [] \<and> Atoi (butlast (f ! 3)) = (int n, None)"
    and s: "0 \<le> v_CfgSpacing v"
    and fin: "v_CfgEnd v \<le> int (length F)"
    and atoms: "v_atoms v = int n"
    and dec: "\<forall>i. a < i \<and> i < v_CfgEnd v \<and> (i - a) mod (v_CfgSpacing v + 1) = 0
                \<longrightarrow> volume_readCfg pf v (F ! nat i) = Inr (X i, B i, [])"
    and c: "0 \<le> c" "a \<le> c" "(c - a) mod (v_CfgSpacing v + 1) = 0"
  shows "volume_start pf v c (concat (drop (Suc (nat c)) F))
           = (None, map (\<lambda>i. volume_calc v i (B i) (X i))
                      (filter (\<lambda>i. (i - a) mod (v_CfgSpacing v + 1) = 0)
                         [c + v_CfgSpacing v + 1 .. v_CfgEnd v - 1]))"
  using c
proof (induction "nat (v_CfgEnd v - c)" arbitrary: c rule: less_induct)
  case less
  let ?s = "v_CfgSpacing v"
  let ?c' = "c + ?s + 1"
  show ?case
  proof (cases "v_CfgEnd v \<le> ?c'")
    case True
    then have "[?c' .. v_CfgEnd v - 1] = []" by simp
    with True show ?thesis by (subst volume_start.simps) simp
  next
    case False
    then have lt: "?c' < v_CfgEnd v" by simp
    with fin less.prems(1) s have inF: "nat ?c' < length F" by simp
    have wf': "\<forall>f \<in> set (drop (Suc (nat c)) F).
                 length f = 9 + n \<and> f ! 3 \<noteq> [] \<and> Atoi (butlast (f ! 3)) = (int n, None)"
      using wf by (auto dest: in_set_dropD)
    have "nat ?s \<le> length (drop (Suc (nat c)) F)"
      using inF less.prems(1) s by simp
    from ReadCfgNonCvg_frames[OF wf' s this]
    have "ReadCfgNonCvg (concat (drop (Suc (nat c)) F)) ?s
            = Inr (concat (drop (nat ?s + Suc (nat c)) F))"
      by simp
    moreover have "nat ?s + Suc (nat c) = nat ?c'"
      using less.prems(1) s by simp
    ultimately have skip: "ReadCfgNonCvg (concat (drop (Suc (nat c)) F)) ?s
            = Inr (concat (drop (nat ?c') F))"
      by simp
    have cons: "concat (drop (nat ?c') F) = F ! nat ?c' @ concat (drop (Suc (nat ?c')) F)"
      using inF by (simp flip: Cons_nth_drop_Suc)
    from wf inF atoms have len: "length (F ! nat ?c') = 9 + nat (v_atoms v)"
      by simp
    have "(?c' - a) mod (?s + 1) = ((c - a) + (?s + 1)) mod (?s + 1)"
      by (simp add: algebra_simps)
    also have "\<dots> = (c - a) mod (?s + 1)" by simp
    finally have P: "(?c' - a) mod (?s + 1) = 0" using less.prems(3) by simp
    from dec lt P less.prems(2) s
    have "volume_readCfg pf v (F ! nat ?c') = Inr (X ?c', B ?c', [])" by simp
    from volume_readCfg_append[OF len this]
    have rd: "volume_readCfg pf v (F ! nat ?c' @ concat (drop (Suc (nat ?c')) F))
                = Inr (X ?c', B ?c', concat (drop (Suc (nat ?c')) F))" .
    have "nat (v_CfgEnd v - ?c') < nat (v_CfgEnd v - c)" using lt s by simp
    moreover have "0 \<le> ?c'" "a \<le> ?c'" using less.prems(1,2) s by simp_all
    ultimately have IH: "volume_start pf v ?c' (concat (drop (Suc (nat ?c')) F))
           = (None, map (\<lambda>i. volume_calc v i (B i) (X i))
                      (filter (\<lambda>i. (i - a) mod (?s + 1) = 0)
                         [?c' + ?s + 1 .. v_CfgEnd v - 1]))"
      using P by (intro less.hyps)
    from lt have "?c' \<le> v_CfgEnd v - 1" by simp
    from frameIndices_step[OF s P this]
    have idx: "filter (\<lambda>i. (i - a) mod (?s + 1) = 0) [?c' .. v_CfgEnd v - 1]
                 = ?c' # filter (\<lambda>i. (i - a) mod (?s + 1) = 0) [?c' + ?s + 1 .. v_CfgEnd v - 1]" .
    show ?thesis
      by (subst volume_start.simps) (simp add: False skip cons rd IH idx)
  qed
qed


text \<open>
  A trajectory of three frames of one atom, read from frame 0 to frame 2 with one frame
  left out between two processed frames.
\<close>

definition volume_spaced :: Volume where
  "volume_spaced = volume_example\<lparr>v_CfgEnd := 3, v_CfgSpacing := 1\<rparr>"

definition volume_decoded :: Volume where
  "volume_decoded = volume_spaced\<lparr>v_atoms := 1, v_cols := [1, 2, 3, 0], v_colsLen := 4\<rparr>"

definition volume_traj :: "reader list" where
  "volume_traj = [lammpsFrame ''1'' ''type x y z'' [''1 5 5 5''],
                  lammpsFrame ''1'' ''type x y z'' [''1 1 1 1''],
                  lammpsFrame ''1'' ''type x y z'' [''1 2 2 2'']]"

lemma volume_first_example:
  "volume_readCfgFirst parseDigits volume_spaced (lammpsFrame ''1'' ''type x y z'' [''1 5 5 5''])
     = Inr ([''2'' \<mapsto> [], ''1'' \<mapsto> [(5, 5, 5)]], (10, 10, 10), volume_decoded, [])"
  by (simp add: volume_readCfgFirst_plain rowAt_def boxLine_def volume_fetchXYZ_def
      volume_decoded_def volume_spaced_def volume_example_def lammpsFrame_def line_def nl_def
      ReadSlice_def Atoi_def Fields_def TrimSpace_def isSpace_def isDigit_def digitsVal_def
      parseDigits_def atomsOf_def Let_def)

lemma volume_later_example:
  "volume_readCfg parseDigits volume_decoded (lammpsFrame ''1'' ''type x y z'' [''1 2 2 2''])
     = Inr ([''2'' \<mapsto> [], ''1'' \<mapsto> [(2, 2, 2)]], (10, 10, 10), [])"
  by (simp add: volume_readCfg_plain rowAt_def boxLine_def volume_fetchXYZ_def
      volume_decoded_def volume_spaced_def volume_example_def lammpsFrame_def line_def nl_def
      ReadSlice_def Atoi_def Fields_def TrimSpace_def isSpace_def isDigit_def digitsVal_def
      parseDigits_def atomsOf_def Let_def)

lemma volume_spaced_indices: "frameIndices volume_spaced = [0, 2]"
  by (simp add: frameIndices_def volume_spaced_def volume_example_def upto.simps)

lemma volume_traj_frames:
  "\<forall>f \<in> set volume_traj.
     length f = 9 + 1 \<and> f ! 3 \<noteq> [] \<and> Atoi (butlast (f ! 3)) = (int 1, None)"
  by (simp add: volume_traj_def lammpsFrame_def line_def nl_def Atoi_def isDigit_def
      digitsVal_def Let_def)

section \<open>Theorems\<close>




text \<open>
  C7. When every selected atom's type has a mass, the total mass is not zero and there
  is at least one atom, the radius-of-gyration kernel returns the square root of
  \<open>S / (3 N)\<close>, where \<open>S\<close> is the sum over the \<open>N\<close> selected atoms of the squared Euclidean
  deviation from the mass-weighted centroid; the denominator is three times the number of
  atoms and carries no mass. For two atoms of mass 1 at (-1,0,0) and (1,0,0) the radius
  is the square root of 1/3.
\<close>

theorem C7_radius_of_gyration:
  assumes "length types = length xyz"
    and "\<forall>t \<in> set types. r_Masses r t \<noteq> None"
    and "totalMass (r_Masses r) types \<noteq> 0"
    and "xyz \<noteq> []"
  shows "radius_calc r cfg xyz types =
           Inr (cfg + r_CfgStart r, real_of_int (cfg + r_CfgStart r) * r_Dt r,
                sqrt (sum_list (map (sqDeviation (centroid (r_Masses r) xyz types)) xyz)
                      / (3 * real (length xyz))))
         \<and> radius_calc (radius_New 0 1 0 2 [''1'' \<mapsto> 1] 1) 0 [(- 1, 0, 0), (1, 0, 0)] [''1'', ''1'']
             = Inr (0, 0, sqrt (1 / 3))"
proof
  show "radius_calc r cfg xyz types =
           Inr (cfg + r_CfgStart r, real_of_int (cfg + r_CfgStart r) * r_Dt r,
                sqrt (sum_list (map (sqDeviation (centroid (r_Masses r) xyz types)) xyz)
                      / (3 * real (length xyz))))"
    using comLoop_sum[OF assms(1) assms(2), of 0 0 0 0]
    by (simp add: radius_calc_def msdLoop_sum centroid_def Let_def mult.commute)
next
  have m: "massOf [''1'' \<mapsto> 1] ''1'' = 1" by (simp add: massOf_def)
  have "radius_calc (radius_New 0 1 0 2 [''1'' \<mapsto> 1] 1) 0 [(- 1, 0, 0), (1, 0, 0)] [''1'', ''1'']
          = Inr (0, 0, sqrt (2 / 6))"
    by (simp add: radius_calc_def radius_New_def Let_def)
  then show "radius_calc (radius_New 0 1 0 2 [''1'' \<mapsto> 1] 1) 0 [(- 1, 0, 0), (1, 0, 0)] [''1'', ''1'']
          = Inr (0, 0, sqrt (1 / 3))"
    by simp
qed

text \<open>
  C7 at a concrete input: masses 1 and 3 at 0 and 4 on the x axis have their centroid at
  3, and the radius is the square root of (9 + 1) / 6.
\<close>

theorem C7_witness:
  "radius_calc (radius_New 5 9 0 2 [''1'' \<mapsto> 1, ''2'' \<mapsto> 3] 2) 1 [(0, 0, 0), (4, 0, 0)] [''1'', ''2'']
     = Inr (6, 12, sqrt (5 / 3))"
proof -
  let ?r = "radius_New 5 9 0 2 [''1'' \<mapsto> 1, ''2'' \<mapsto> 3] 2"
  have h1: "length [''1'', ''2''] = length [(0::real, 0::real, 0::real), (4, 0, 0)]" by simp
  have h2: "\<forall>t \<in> set [''1'', ''2'']. r_Masses ?r t \<noteq> None" by (simp add: radius_New_def)
  have h3: "totalMass (r_Masses ?r) [''1'', ''2''] \<noteq> 0"
    by (simp add: radius_New_def totalMass_def massOf_def)
  have h4: "[(0::real, 0::real, 0::real), (4, 0, 0)] \<noteq> []" by simp
  have c: "centroid (r_Masses ?r) [(0, 0, 0), (4, 0, 0)] [''1'', ''2''] = (3, 0, 0)"
    by (simp add: radius_New_def centroid_def totalMass_def massOf_def)
  from C7_radius_of_gyration[OF h1 h2 h3 h4, of 1]
  show ?thesis
    by (simp add: c sqDeviation_def) (simp add: radius_New_def)
qed

text \<open>
  C6. A run whose selected atom has a type without a mass should fail. On a one-frame
  trajectory whose only atom has type 2, with a mass for type 1 only, \<open>calc\<close> returns the
  error for type 2, but \<open>Start\<close> drops it: it returns no error and writes no row.
\<close>

theorem C6_start_drops_mass_error:
  "radius_calc (radius_New 0 1 0 1 [''1'' \<mapsto> 1] 1) 0 [(5, 5, 5)] [''2''] = Inl (MassMissing ''2'')
   \<and> radius_Start parseDigits (radius_New 0 1 0 1 [''1'' \<mapsto> 1] 1)
        (lammpsFrame ''1'' ''type xu yu zu'' [''2 5 5 5'']) = (None, [])"
proof
  show "radius_calc (radius_New 0 1 0 1 [''1'' \<mapsto> 1] 1) 0 [(5, 5, 5)] [''2''] = Inl (MassMissing ''2'')"
    by (simp add: radius_calc_missing radius_New_def)
next
  show "radius_Start parseDigits (radius_New 0 1 0 1 [''1'' \<mapsto> 1] 1)
        (lammpsFrame ''1'' ''type xu yu zu'' [''2 5 5 5'']) = (None, [])"
  proof -
    have s: "r_CfgStart (radius_New 0 1 0 1 [''1'' \<mapsto> 1] 1) = 0"
      by (simp add: radius_New_def)
    show ?thesis
      unfolding radius_Start_def
      by (simp add: s ReadCfgNonCvg_def radius_readCfgFirst_example)
         (simp add: radius_emit_def radius_calc_missing radius_New_def)
  qed
qed

text \<open>
  C2. With \<open>RMax\<close> = 10 and \<open>Dr\<close> = 3 there are 3 bins. Two atoms at distance 9.5 are
  within the cutoff, and their bin index is 3: the increment is out of range and the
  program panics.
\<close>

theorem C2_index_equals_bins:
  "gr_New [(''1'', [''2''])] 10 3 0 1 = Inr gr_example
   \<and> g_bins gr_example = 3
   \<and> gr_index gr_example (100, 100, 100) (0, 0, 0) (19 / 2, 0, 0) = Some 3
   \<and> gr_calc gr_example (100, 100, 100) [''1'' \<mapsto> [(0, 0, 0)], ''2'' \<mapsto> [(19 / 2, 0, 0)]]
        (gr_initHstg gr_example [''1'' \<mapsto> [(0, 0, 0)], ''2'' \<mapsto> [(19 / 2, 0, 0)]], 0)
      = Inl PanicIndexOutOfRange"
proof (intro conjI)
  show "gr_New [(''1'', [''2''])] 10 3 0 1 = Inr gr_example"
    by (simp add: gr_New_def gr_example_def gr_atomsTypOf_def toInt_def Pow_2 Let_def)
next
  show "g_bins gr_example = 3" by (simp add: gr_example_def)
next
  have "toInt (19 / 2 / 3) = 3" by (simp add: toInt_def)
  then show idx: "gr_index gr_example (100, 100, 100) (0, 0, 0) (19 / 2, 0, 0) = Some 3"
    by (simp add: gr_index_def gr_example_dist sqrt_361_4 Let_def gr_example_def)
  have sel: "g_Atoms gr_example = [(''1'', [''2''])]" "g_bins gr_example = 3"
    by (simp_all add: gr_example_def)
  show "gr_calc gr_example (100, 100, 100) [''1'' \<mapsto> [(0, 0, 0)], ''2'' \<mapsto> [(19 / 2, 0, 0)]]
        (gr_initHstg gr_example [''1'' \<mapsto> [(0, 0, 0)], ''2'' \<mapsto> [(19 / 2, 0, 0)]], 0)
      = Inl PanicIndexOutOfRange"
    by (simp add: gr_calc_def gr_initHstg_def atomsOf_def gr_incr_def idx sel)
qed

text \<open>
  C3. A first frame whose atom-count line is \<open>1O\<close>. \<open>util.Header\<close> drops the error of
  \<open>strconv.Atoi\<close> and goes on with 0 atoms: the first frame of volume and of no_pbc is
  read without an error, no row is decoded, and the frame's row is left in the stream.
  The readers of radius_gyration and dist_two_atoms return the error of \<open>Atoi\<close>.
\<close>

theorem C3_header_drops_atoi_error:
  "Header parseDigits plain_readSlice (lammpsFrame ''1O'' ''type x y z'' [''1 5 5 5'']) ()
     = Inr (0, (10, 10, 10), [line ''ITEM: ATOMS type x y z'', line ''1 5 5 5''], ())
   \<and> (case volume_readCfgFirst parseDigits volume_example
              (lammpsFrame ''1O'' ''type x y z'' [''1 5 5 5'']) of
         Inl e \<Rightarrow> False
       | Inr (xyz, box, v', r) \<Rightarrow>
           xyz ''1'' = Some [] \<and> box = (10, 10, 10) \<and> v_atoms v' = 0 \<and> r = [line ''1 5 5 5''])
   \<and> (case nopbc_readCfgFirst parseDigits (nopbc_New Map.empty)
              (lammpsFrame ''1O'' ''mol x y z'' [''1 5 5 5'']) [] of
         Inl e \<Rightarrow> False
       | Inr (xyz, n', r, w) \<Rightarrow> xyz = [] \<and> n_atoms n' = 0 \<and> r = [line ''1 5 5 5''])
   \<and> (case radius_readCfgFirst parseDigits (radius_New 0 1 0 1 Map.empty 1)
              (lammpsFrame ''1O'' ''type xu yu zu'' [''1 5 5 5'']) of
         Inl e \<Rightarrow> e = AtoiError
       | Inr res \<Rightarrow> False)
   \<and> (case dist_readCfgFirst parseDigits (dist_New 0 1 0 1 1)
              (lammpsFrame ''1O'' ''type xu yu zu'' [''1 5 5 5'', ''1 6 6 6'']) of
         Inl e \<Rightarrow> e = AtoiError
       | Inr res \<Rightarrow> False)"
  by code_simp

text \<open>
  C9 (amended). If a row that the active calculation decodes has a number of fields
  different from \<open>colsLen\<close>, decoding the frame returns an error. The decoded rows are the
  rows \<open>Atom1\<close> and \<open>Atom2\<close> in dist_two_atoms, the rows from \<open>AtomStart\<close> up to
  \<open>AtomEnd\<close> in radius_gyration, and every one of the atom-count rows in volume, gr and
  no_pbc (first and later frames).
\<close>

theorem C9_decoded_rows_checked:
  "(0 \<le> d_Atom1 d \<and> d_Atom1 d < d_Atom2 d
      \<and> (length (Fields (rowAt r (nat (d_Atom1 d)))) \<noteq> d_colsLen d
          \<or> length (Fields (rowAt r (nat (d_Atom2 d)))) \<noteq> d_colsLen d)
      \<longrightarrow> (\<exists>e. dist_fetchXYZ pf d r = Inl e))
   \<and> (0 \<le> r_AtomStart rg \<and> r_AtomStart rg \<le> i \<and> i < r_AtomEnd rg
        \<and> length (Fields (rowAt r (nat i))) \<noteq> r_colsLen rg
      \<longrightarrow> (\<exists>e. radius_fetchXYZ pf rg r = Inl e))
   \<and> (0 \<le> i \<and> i < v_atoms v \<and> length (Fields (rowAt r (nat i))) \<noteq> v_colsLen v
      \<longrightarrow> (\<exists>e. volume_fetchXYZ pf v r = Inl e))
   \<and> (0 \<le> i \<and> i < g_atoms g \<and> length (Fields (rowAt r (nat i))) \<noteq> g_colsLen g
      \<longrightarrow> (\<exists>e. gr_fetchXYZ pf g r = Inl e))
   \<and> (j < m \<and> length (Fields (rowAt r j)) \<noteq> n_colsLen n
      \<longrightarrow> (\<exists>e. firstRows pf n box box2 k m r w st xyz = Inl e)
          \<and> (\<exists>e. cfgRows pf n box box2 k m r w lastXYZ corr = Inl e))"
proof (intro conjI impI)
  assume "0 \<le> d_Atom1 d \<and> d_Atom1 d < d_Atom2 d
      \<and> (length (Fields (rowAt r (nat (d_Atom1 d)))) \<noteq> d_colsLen d
          \<or> length (Fields (rowAt r (nat (d_Atom2 d)))) \<noteq> d_colsLen d)"
  then show "\<exists>e. dist_fetchXYZ pf d r = Inl e"
    by (intro dist_fetchXYZ_checked) simp_all
next
  assume a: "0 \<le> r_AtomStart rg \<and> r_AtomStart rg \<le> i \<and> i < r_AtomEnd rg
        \<and> length (Fields (rowAt r (nat i))) \<noteq> r_colsLen rg"
  then have idx: "nat (r_AtomStart rg) + nat (i - r_AtomStart rg) = nat i" by arith
  from a have "nat (i - r_AtomStart rg) < nat (r_AtomEnd rg - r_AtomStart rg)" by arith
  moreover from a have
    "length (Fields (rowAt (drop (nat (r_AtomStart rg)) r) (nat (i - r_AtomStart rg)))) \<noteq> r_colsLen rg"
    by (simp only: rowAt_drop idx) simp
  ultimately obtain e where
    "radius_rows pf rg (nat (r_AtomEnd rg - r_AtomStart rg)) (drop (nat (r_AtomStart rg)) r) [] [] = Inl e"
    using radius_rows_checked by blast
  then show "\<exists>e. radius_fetchXYZ pf rg r = Inl e"
    by (simp add: radius_fetchXYZ_def skipLines_def)
next
  assume a: "0 \<le> i \<and> i < v_atoms v \<and> length (Fields (rowAt r (nat i))) \<noteq> v_colsLen v"
  then have lt: "nat i < nat (v_atoms v)" by arith
  from a have bad: "length (Fields (rowAt r (nat i))) \<noteq> v_colsLen v" by simp
  from volume_rows_checked[OF lt bad] show "\<exists>e. volume_fetchXYZ pf v r = Inl e"
    by (simp add: volume_fetchXYZ_def)
next
  assume a: "0 \<le> i \<and> i < g_atoms g \<and> length (Fields (rowAt r (nat i))) \<noteq> g_colsLen g"
  then have lt: "nat i < nat (g_atoms g)" by arith
  from a have bad: "length (Fields (rowAt r (nat i))) \<noteq> g_colsLen g" by simp
  from gr_rows_checked[OF lt bad] show "\<exists>e. gr_fetchXYZ pf g r = Inl e"
    by (simp add: gr_fetchXYZ_def)
next
  assume "j < m \<and> length (Fields (rowAt r j)) \<noteq> n_colsLen n"
  then show "\<exists>e. firstRows pf n box box2 k m r w st xyz = Inl e"
    by (auto intro: firstRows_checked)
next
  assume "j < m \<and> length (Fields (rowAt r j)) \<noteq> n_colsLen n"
  then show "\<exists>e. cfgRows pf n box box2 k m r w lastXYZ corr = Inl e"
    by (auto intro: cfgRows_checked)
qed


text \<open>
  C9 at a concrete input: three rows for four columns, the second with two fields only;
  every decoder that decodes the second row returns an error.
\<close>

theorem C9_witness:
  "length (Fields (rowAt [line ''1 0 0 0'', line ''1 5'', line ''1 3 4 0''] 1)) = 2
   \<and> (\<exists>e. dist_fetchXYZ parseDigits
             ((dist_New 0 1 1 2 1)\<lparr>d_atoms := 3, d_cols := [1, 2, 3], d_colsLen := 4\<rparr>)
             [line ''1 0 0 0'', line ''1 5'', line ''1 3 4 0''] = Inl e)
   \<and> (\<exists>e. radius_fetchXYZ parseDigits
             ((radius_New 0 1 0 2 Map.empty 1)\<lparr>r_atoms := 3, r_cols := [1, 2, 3, 0], r_colsLen := 4\<rparr>)
             [line ''1 0 0 0'', line ''1 5'', line ''1 3 4 0''] = Inl e)
   \<and> (\<exists>e. volume_fetchXYZ parseDigits
             (volume_example\<lparr>v_atoms := 3, v_cols := [1, 2, 3, 0], v_colsLen := 4\<rparr>)
             [line ''1 0 0 0'', line ''1 5'', line ''1 3 4 0''] = Inl e)
   \<and> (\<exists>e. gr_fetchXYZ parseDigits
             (gr_example\<lparr>g_atoms := 3, g_cols := [1, 2, 3, 0], g_colsLen := 4\<rparr>)
             [line ''1 0 0 0'', line ''1 5'', line ''1 3 4 0''] = Inl e)
   \<and> (\<exists>e. firstRows parseDigits
             ((nopbc_New Map.empty)\<lparr>n_atoms := 3, n_cols := [1, 2, 3, 0], n_colsLen := 4\<rparr>)
             (10, 10, 10) (5, 5, 5) 0 3 [line ''1 0 0 0'', line ''1 5'', line ''1 3 4 0''] []
             ([], (0, 0, 0), (0, 0, 0)) [] = Inl e)
   \<and> (\<exists>e. cfgRows parseDigits
             ((nopbc_New Map.empty)\<lparr>n_atoms := 3, n_cols := [1, 2, 3, 0], n_colsLen := 4\<rparr>)
             (10, 10, 10) (5, 5, 5) 0 3 [line ''1 0 0 0'', line ''1 5'', line ''1 3 4 0''] []
             [(0, 0, 0), (0, 0, 0), (0, 0, 0)] [(0, 0, 0), (0, 0, 0), (0, 0, 0)] = Inl e)"
proof -
  have bad: "length (Fields (rowAt [line ''1 0 0 0'', line ''1 5'', line ''1 3 4 0''] (Suc 0))) = 2"
    by code_simp
  show ?thesis
    using C9_decoded_rows_checked
      [where d = "(dist_New 0 1 1 2 1)\<lparr>d_atoms := 3, d_cols := [1, 2, 3], d_colsLen := 4\<rparr>"
         and rg = "(radius_New 0 1 0 2 Map.empty 1)\<lparr>r_atoms := 3, r_cols := [1, 2, 3, 0], r_colsLen := 4\<rparr>"
         and v = "volume_example\<lparr>v_atoms := 3, v_cols := [1, 2, 3, 0], v_colsLen := 4\<rparr>"
         and g = "gr_example\<lparr>g_atoms := 3, g_cols := [1, 2, 3, 0], g_colsLen := 4\<rparr>"
         and n = "(nopbc_New Map.empty)\<lparr>n_atoms := 3, n_cols := [1, 2, 3, 0], n_colsLen := 4\<rparr>"
         and r = "[line ''1 0 0 0'', line ''1 5'', line ''1 3 4 0'']"
         and i = 1 and j = 1 and m = 3 and pf = parseDigits
         and box = "(10, 10, 10)" and ?box2.0 = "(5, 5, 5)" and k = 0 and w = "[]"
         and st = "([], (0, 0, 0), (0, 0, 0))" and xyz = "[]"
         and lastXYZ = "[(0, 0, 0), (0, 0, 0), (0, 0, 0)]"
         and corr = "[(0, 0, 0), (0, 0, 0), (0, 0, 0)]"]
    by (simp add: bad dist_New_def radius_New_def)
qed

text \<open>
  C9 as stated fails. A frame of dist_two_atoms with three rows for four columns, whose
  first row has two fields only: with \<open>Atom1\<close> = 1 and \<open>Atom2\<close> = 2 the first row is passed
  over unchecked, and the frame is decoded without an error.
\<close>

theorem C9_counterexample:
  "length (Fields (line ''1 5'')) = 2
   \<and> dist_readCfgFirst parseDigits (dist_New 0 1 1 2 1)
        (lammpsFrame ''3'' ''type xu yu zu'' [''1 5'', ''1 0 0 0'', ''1 3 4 0''])
      = Inr ((0, 0, 0), (3, 4, 0),
             (dist_New 0 1 1 2 1)\<lparr>d_atoms := 3, d_cols := [1, 2, 3], d_colsLen := 4\<rparr>, [])"
  by code_simp





text \<open>
  C10. On a trajectory of frames of \<open>n\<close> atoms each, with
  \<open>0 \<le> CfgStart < CfgEnd \<le>\<close> the number of frames and \<open>CfgSpacing \<ge> 0\<close>, the volume
  calculation returns one row for each of the frames \<open>CfgStart\<close>,
  \<open>CfgStart + (CfgSpacing + 1)\<close>, \<open>CfgStart + 2 (CfgSpacing + 1)\<close>, ... strictly below
  \<open>CfgEnd\<close> and no other row: the row of frame \<open>i\<close> carries the number \<open>i\<close> and is computed
  from the box and the coordinates decoded from the lines of frame \<open>i\<close> alone. The frames in
  between are read and discarded: nothing of them is in the result but their length and
  their atom count line. (The processed frames are taken to decode without an error.)
\<close>

theorem C10_frames_processed:
  assumes "0 \<le> v_CfgStart v" and "v_CfgStart v < v_CfgEnd v"
    and "v_CfgEnd v \<le> int (length F)" and "0 \<le> v_CfgSpacing v"
    and "\<forall>f \<in> set F. length f = 9 + n \<and> f ! 3 \<noteq> [] \<and> Atoi (butlast (f ! 3)) = (int n, None)"
    and "volume_readCfgFirst pf v (F ! nat (v_CfgStart v))
           = Inr (X (v_CfgStart v), B (v_CfgStart v), v', [])"
    and "v_atoms v' = int n"
    and "\<forall>i \<in> set (tl (frameIndices v)). volume_readCfg pf v' (F ! nat i) = Inr (X i, B i, [])"
  shows "volume_Start pf v (concat F)
           = (None, map (\<lambda>i. volume_calc v' i (B i) (X i)) (frameIndices v))
         \<and> map fst (snd (volume_Start pf v (concat F))) = frameIndices v"
proof -
  let ?a = "v_CfgStart v"
  let ?s = "v_CfgSpacing v"
  let ?P = "\<lambda>i. (i - ?a) mod (?s + 1) = 0"
  note wf = assms(5)
  have idx: "frameIndices v = ?a # filter ?P [?a + ?s + 1 .. v_CfgEnd v - 1]"
    unfolding frameIndices_def using assms(2,4) by (intro frameIndices_step) simp_all
  have fields: "v_CfgStart v' = ?a" "v_CfgEnd v' = v_CfgEnd v" "v_CfgSpacing v' = ?s"
    using volume_readCfgFirst_fields[OF assms(6)] by simp_all
  have inF: "nat ?a < length F" using assms(1,2,3) by simp
  have "nat ?a \<le> length F" using inF by simp
  from ReadCfgNonCvg_frames[OF wf assms(1) this]
  have skip: "ReadCfgNonCvg (concat F) ?a = Inr (concat (drop (nat ?a) F))" .
  have cons: "concat (drop (nat ?a) F) = F ! nat ?a @ concat (drop (Suc (nat ?a)) F)"
    using inF by (simp flip: Cons_nth_drop_Suc)
  from wf inF have len: "length (F ! nat ?a) = 9 + n" by simp
  from volume_readCfgFirst_append[OF len assms(6,7)]
  have first: "volume_readCfgFirst pf v (F ! nat ?a @ concat (drop (Suc (nat ?a)) F))
                 = Inr (X ?a, B ?a, v', concat (drop (Suc (nat ?a)) F))" .
  have dec: "\<forall>i. ?a < i \<and> i < v_CfgEnd v' \<and> (i - ?a) mod (v_CfgSpacing v' + 1) = 0
               \<longrightarrow> volume_readCfg pf v' (F ! nat i) = Inr (X i, B i, [])"
  proof (intro allI impI)
    fix i
    assume i: "?a < i \<and> i < v_CfgEnd v' \<and> (i - ?a) mod (v_CfgSpacing v' + 1) = 0"
    then have P: "?P i" by (simp add: fields)
    have "\<not> i < ?a + ?s + 1"
    proof
      assume "i < ?a + ?s + 1"
      with i step_not_index[of ?s ?a ?a i] assms(4) P show False by simp
    qed
    with i P have "i \<in> set (tl (frameIndices v))" by (simp add: idx fields)
    with assms(8) show "volume_readCfg pf v' (F ! nat i) = Inr (X i, B i, [])" by simp
  qed
  have loop: "volume_start pf v' ?a (concat (drop (Suc (nat ?a)) F))
           = (None, map (\<lambda>i. volume_calc v' i (B i) (X i))
                      (filter ?P [?a + ?s + 1 .. v_CfgEnd v - 1]))"
    using volume_start_frames[of F n v' ?a pf X B ?a] wf assms(1,3,4,7) dec
    by (simp add: fields)
  have start: "volume_Start pf v (concat F)
           = (None, map (\<lambda>i. volume_calc v' i (B i) (X i)) (frameIndices v))"
    by (simp add: volume_Start_def skip cons first fields loop idx)
  moreover have "\<And>i box xyz. fst (volume_calc v' i box xyz) = i"
    by (simp add: volume_calc_def Let_def split: prod.splits)
  then have "map fst (map (\<lambda>i. volume_calc v' i (B i) (X i)) (frameIndices v)) = frameIndices v"
    by (simp add: o_def)
  ultimately show ?thesis by simp
qed


theorem C10_witness:
  "volume_Start parseDigits volume_spaced (concat volume_traj)
     = (None, [volume_calc volume_decoded 0 (10, 10, 10) [''2'' \<mapsto> [], ''1'' \<mapsto> [(5, 5, 5)]],
               volume_calc volume_decoded 2 (10, 10, 10) [''2'' \<mapsto> [], ''1'' \<mapsto> [(2, 2, 2)]]])
   \<and> map fst (snd (volume_Start parseDigits volume_spaced (concat volume_traj))) = [0, 2]"
proof -
  have sel: "v_CfgStart volume_spaced = 0" "v_CfgEnd volume_spaced = 3"
    "v_CfgSpacing volume_spaced = 1" "v_atoms volume_decoded = int 1"
    by (simp_all add: volume_decoded_def volume_spaced_def volume_example_def)
  have fr: "volume_traj ! 0 = lammpsFrame ''1'' ''type x y z'' [''1 5 5 5'']"
    "volume_traj ! 2 = lammpsFrame ''1'' ''type x y z'' [''1 2 2 2'']"
    "length volume_traj = 3"
    by (simp_all add: volume_traj_def)
  have cfg: "\<And>w i box xyz. fst (volume_calc w i box xyz) = i"
    by (simp add: volume_calc_def Let_def split: prod.splits)
  show ?thesis
    using C10_frames_processed
      [where v = volume_spaced and F = volume_traj and n = 1 and pf = parseDigits
         and v' = volume_decoded and B = "\<lambda>i. (10, 10, 10)"
         and X = "\<lambda>i. if i = 0 then [''2'' \<mapsto> [], ''1'' \<mapsto> [(5, 5, 5)]]
                       else [''2'' \<mapsto> [], ''1'' \<mapsto> [(2, 2, 2)]]",
       OF _ _ _ _ volume_traj_frames]
    by (simp add: sel fr cfg volume_spaced_indices volume_first_example volume_later_example)
qed

end
